theory Spec2Isabelle
  imports Complex_Main
begin

section \<open>JavaScript numbers\<close>

text \<open>
  A JavaScript \<open>number\<close> is modelled as an exact real extended with the three special
  values of IEEE 754 arithmetic. The special values follow the IEEE rules (division by
  zero, \<open>0 * Infinity\<close>, \<open>Infinity - Infinity\<close>, comparisons with \<open>NaN\<close>); finite values
  are computed exactly. The rounding of every result to double precision is written out
  separately, in the section on double precision, for the computation whose outcome
  depends on it; the sign of zero is not modelled.
\<close>

datatype jsnum = Fin real | PInf | NInf | NaN


instantiation jsnum :: "{zero, one, plus, uminus, minus, times, inverse, ord}"
begin

definition zero_jsnum :: jsnum where
  "zero_jsnum = Fin 0"

definition one_jsnum :: jsnum where
  "one_jsnum = Fin 1"

fun plus_jsnum :: "jsnum \<Rightarrow> jsnum \<Rightarrow> jsnum" where
  "plus_jsnum (Fin a) (Fin b) = Fin (a + b)"
| "plus_jsnum NaN b = NaN"
| "plus_jsnum a NaN = NaN"
| "plus_jsnum PInf NInf = NaN"
| "plus_jsnum NInf PInf = NaN"
| "plus_jsnum PInf b = PInf"
| "plus_jsnum NInf b = NInf"
| "plus_jsnum a PInf = PInf"
| "plus_jsnum a NInf = NInf"

fun uminus_jsnum :: "jsnum \<Rightarrow> jsnum" where
  "uminus_jsnum (Fin a) = Fin (- a)"
| "uminus_jsnum PInf = NInf"
| "uminus_jsnum NInf = PInf"
| "uminus_jsnum NaN = NaN"

definition minus_jsnum :: "jsnum \<Rightarrow> jsnum \<Rightarrow> jsnum" where
  "minus_jsnum a b = a + (- b)"

fun times_jsnum :: "jsnum \<Rightarrow> jsnum \<Rightarrow> jsnum" where
  "times_jsnum (Fin a) (Fin b) = Fin (a * b)"
| "times_jsnum NaN b = NaN"
| "times_jsnum a NaN = NaN"
| "times_jsnum PInf (Fin b) = (if b = 0 then NaN else if 0 < b then PInf else NInf)"
| "times_jsnum NInf (Fin b) = (if b = 0 then NaN else if 0 < b then NInf else PInf)"
| "times_jsnum (Fin a) PInf = (if a = 0 then NaN else if 0 < a then PInf else NInf)"
| "times_jsnum (Fin a) NInf = (if a = 0 then NaN else if 0 < a then NInf else PInf)"
| "times_jsnum PInf PInf = PInf"
| "times_jsnum NInf NInf = PInf"
| "times_jsnum PInf NInf = NInf"
| "times_jsnum NInf PInf = NInf"

fun divide_jsnum :: "jsnum \<Rightarrow> jsnum \<Rightarrow> jsnum" where
  "divide_jsnum (Fin a) (Fin b) =
     (if b = 0 then (if a = 0 then NaN else if 0 < a then PInf else NInf)
      else Fin (a / b))"
| "divide_jsnum NaN b = NaN"
| "divide_jsnum a NaN = NaN"
| "divide_jsnum (Fin a) PInf = Fin 0"
| "divide_jsnum (Fin a) NInf = Fin 0"
| "divide_jsnum PInf (Fin b) = (if 0 \<le> b then PInf else NInf)"
| "divide_jsnum NInf (Fin b) = (if 0 \<le> b then NInf else PInf)"
| "divide_jsnum a b = NaN"

definition inverse_jsnum :: "jsnum \<Rightarrow> jsnum" where
  "inverse_jsnum a =
     (case a of Fin x \<Rightarrow> (if x = 0 then PInf else Fin (1 / x))
      | PInf \<Rightarrow> Fin 0 | NInf \<Rightarrow> Fin 0 | NaN \<Rightarrow> NaN)"

fun less_jsnum :: "jsnum \<Rightarrow> jsnum \<Rightarrow> bool" where
  "less_jsnum (Fin a) (Fin b) = (a < b)"
| "less_jsnum NaN b = False"
| "less_jsnum a NaN = False"
| "less_jsnum a NInf = False"
| "less_jsnum PInf b = False"
| "less_jsnum a b = True"

fun less_eq_jsnum :: "jsnum \<Rightarrow> jsnum \<Rightarrow> bool" where
  "less_eq_jsnum (Fin a) (Fin b) = (a \<le> b)"
| "less_eq_jsnum NaN b = False"
| "less_eq_jsnum a NaN = False"
| "less_eq_jsnum NInf b = True"
| "less_eq_jsnum a PInf = True"
| "less_eq_jsnum a b = False"

instance ..

end

instance jsnum :: numeral
proof
  fix a b c :: jsnum
  show "a + b + c = a + (b + c)"
    by (cases a; cases b; cases c) simp_all
qed

text \<open>\<open>Math.min\<close> and \<open>Math.max\<close>: \<open>NaN\<close> if either argument is \<open>NaN\<close>.\<close>

fun Math_min :: "jsnum \<Rightarrow> jsnum \<Rightarrow> jsnum" where
  "Math_min NaN b = NaN"
| "Math_min a NaN = NaN"
| "Math_min a b = (if a < b then a else b)"

fun Math_max :: "jsnum \<Rightarrow> jsnum \<Rightarrow> jsnum" where
  "Math_max NaN b = NaN"
| "Math_max a NaN = NaN"
| "Math_max a b = (if a < b then b else a)"

text \<open>\<open>Math.cos\<close> and \<open>Math.sin\<close>: \<open>NaN\<close> outside the finite numbers.\<close>

fun Math_cos :: "jsnum \<Rightarrow> jsnum" where
  "Math_cos (Fin x) = Fin (cos x)"
| "Math_cos a = NaN"

fun Math_sin :: "jsnum \<Rightarrow> jsnum" where
  "Math_sin (Fin x) = Fin (sin x)"
| "Math_sin a = NaN"

definition Math_PI :: jsnum where
  "Math_PI = Fin pi"

section \<open>Strings and colour channels\<close>

text \<open>
  Strings are lists of characters. \<open>slice s a b\<close> is \<open>s.slice(a, b)\<close> for
  \<open>0 \<le> a\<close>, \<open>0 \<le> b\<close>: both ends are clamped to the length of the string and
  the result is empty when \<open>b \<le> a\<close>.
\<close>

definition slice :: "string \<Rightarrow> nat \<Rightarrow> nat \<Rightarrow> string" where
  "slice s a b = take (b - a) (drop a s)"

definition isWhiteSpace :: "char \<Rightarrow> bool" where
  "isWhiteSpace c = (of_char c \<in> {9::nat, 10, 11, 12, 13, 32, 160})"

definition digitValue :: "char \<Rightarrow> nat" where
  "digitValue c =
     (let n = (of_char c :: nat) in
      if 48 \<le> n \<and> n \<le> 57 then n - 48
      else if 97 \<le> n \<and> n \<le> 122 then n - 87
      else if 65 \<le> n \<and> n \<le> 90 then n - 55
      else 36)"

text \<open>
  \<open>parseInt(s, radix)\<close>: leading white space is skipped, one sign is read, for radix
  16 a prefix \<open>0x\<close> or \<open>0X\<close> is dropped, and the longest run of digits of the
  radix is converted; the result is \<open>NaN\<close> when that run is empty.
\<close>

definition parseInt :: "string \<Rightarrow> nat \<Rightarrow> jsnum" where
  "parseInt s radix =
     (let s1 = dropWhile isWhiteSpace s;
          neg = (s1 \<noteq> [] \<and> hd s1 = CHR ''-'');
          s2 = (if s1 \<noteq> [] \<and> (hd s1 = CHR ''-'' \<or> hd s1 = CHR ''+'') then tl s1 else s1);
          r = (if radix = 0 then 10 else radix);
          strip = (radix = 0 \<or> radix = 16);
          hex = (strip \<and> (take 2 s2 = ''0x'' \<or> take 2 s2 = ''0X''));
          r' = (if hex then 16 else r);
          s3 = (if hex then drop 2 s2 else s2);
          ds = takeWhile (\<lambda>c. digitValue c < r') s3;
          v = foldl (\<lambda>acc c. acc * r' + digitValue c) 0 ds
      in if r' < 2 \<or> 36 < r' then NaN
         else if ds = [] then NaN
         else Fin (if neg then - real v else real v))"

section \<open>Dimension and area model\<close>

text \<open>
  The interfaces of \<open>types.ts\<close>. Field names that clash with constants of the library
  or with each other carry a suffix: \<open>length_dim\<close> is \<open>length\<close>, \<open>id_s\<close> is
  \<open>id\<close>, \<open>sfido_color\<close> is the \<open>sfido\<close> entry of the colours. The colour of the
  overlap strips is optional (the handler reads \<open>colors.sfido || '#f59e0b'\<close>).
  \<open>SurfaceData\<close> has the fields the application fills in.
\<close>

record ExcavationDimensions =
  length_dim :: jsnum
  width :: jsnum
  depth :: jsnum
  sfido :: jsnum

record SurfaceColors =
  bottom :: string
  sides_long :: string
  sides_short :: string
  sfido_color :: "string option"

record SurfaceData =
  id_s :: string
  label :: string
  area :: jsnum
  color :: string
  dimensions :: string

text \<open>
  What the handler takes from its environment: the page size reported by the PDF library,
  the number formatting of the JavaScript runtime (\<open>n.toFixed(k)\<close> and the default
  conversion \<open>`${n}`\<close>) and the three renderings of the current date.
\<close>

record env =
  pageWidth :: jsnum
  pageHeight :: jsnum
  toFixed :: "jsnum \<Rightarrow> nat \<Rightarrow> string"
  toString :: "jsnum \<Rightarrow> string"
  toLocaleDateString :: string
  toLocaleTimeString :: string
  toISOString :: string

definition surfaces :: "env \<Rightarrow> ExcavationDimensions \<Rightarrow> SurfaceColors \<Rightarrow> SurfaceData list" where
  "surfaces rt dims colors =
     [ \<lparr> id_s = ''bottom'',
         label = ''Superficie Inferiore (Base)'',
         area = length_dim dims * width dims,
         color = bottom colors,
         dimensions = toFixed rt (length_dim dims) 2 @ '' x '' @ toFixed rt (width dims) 2 @ '' m'' \<rparr>,
       \<lparr> id_s = ''sides_long'',
         label = ''Pareti Laterali Lunghe (x2)'',
         area = length_dim dims * depth dims,
         color = sides_long colors,
         dimensions = toFixed rt (length_dim dims) 2 @ '' x '' @ toFixed rt (depth dims) 2 @ '' m'' \<rparr>,
       \<lparr> id_s = ''sides_short'',
         label = ''Pareti Laterali Corte (x2)'',
         area = width dims * depth dims,
         color = sides_short colors,
         dimensions = toFixed rt (width dims) 2 @ '' x '' @ toFixed rt (depth dims) 2 @ '' m'' \<rparr> ]"

definition totalArea :: "SurfaceData list \<Rightarrow> jsnum" where
  "totalArea ss =
     foldl (\<lambda>acc s. if id_s s = ''bottom'' then acc + area s else acc + (area s * 2)) 0 ss"

record SfidoData =
  sfidoLunghe :: jsnum
  sfidoCorte :: jsnum
  totale :: jsnum
  sfido_w :: jsnum

definition sfidoData :: "ExcavationDimensions \<Rightarrow> SfidoData" where
  "sfidoData dims =
     (let sfidoLunghe' = length_dim dims * sfido dims * 2;
          sfidoCorte' = width dims * sfido dims * 2;
          totale' = sfidoLunghe' + sfidoCorte'
      in \<lparr> sfidoLunghe = sfidoLunghe', sfidoCorte = sfidoCorte', totale = totale',
           sfido_w = sfido dims \<rparr>)"

definition totalAreaConSfido :: "env \<Rightarrow> ExcavationDimensions \<Rightarrow> SurfaceColors \<Rightarrow> jsnum" where
  "totalAreaConSfido rt dims colors = totalArea (surfaces rt dims colors) + totale (sfidoData dims)"

section \<open>The PDF document\<close>

text \<open>
  The handler drives the PDF library through method calls. A document is the sequence of
  the calls made on it, in order; every call is recorded with its arguments. The optional
  last argument of \<open>text\<close> is the alignment. A new document has one page and
  \<open>addPage\<close> opens the next one.
\<close>

datatype pdf_cmd =
    SetTextColor jsnum jsnum jsnum
  | SetFontSize jsnum
  | SetFont string string
  | Text string jsnum jsnum "string option"
  | SetFillColor jsnum jsnum jsnum
  | SetDrawColor jsnum jsnum jsnum
  | SetLineWidth jsnum
  | SetLineDashPattern "jsnum list" jsnum
  | Rect jsnum jsnum jsnum jsnum string
  | RoundedRect jsnum jsnum jsnum jsnum jsnum jsnum string
  | Line jsnum jsnum jsnum jsnum
  | MoveTo jsnum jsnum
  | LineTo jsnum jsnum
  | Fill
  | AddPage
  | Save string




type_synonym pt = "jsnum \<times> jsnum"

text \<open>
  Characters outside ASCII that the report prints: superscript two and three, the
  multiplication sign and the letter a with a grave accent, each one code unit.
\<close>

definition sup2 :: string where "sup2 = [CHR 0xB2]"
definition sup3 :: string where "sup3 = [CHR 0xB3]"
definition times_sign :: string where "times_sign = [CHR 0xD7]"
definition a_grave :: string where "a_grave = [CHR 0xE0]"

section \<open>The export handler with overlap strips\<close>

text \<open>
  \<open>handleExportPDF\<close> of the application with the \<open>sfido\<close> allowance. The local
  constants and helpers of the handler are definitions of their own; the mutable
  \<open>yPos\<close> is passed in and, where a block advances it, returned.
\<close>

subsection \<open>Page 1: layout of the flattened view\<close>

definition margin :: jsnum where
  "margin = 12"

definition drawAreaHeight :: jsnum where
  "drawAreaHeight = 160"

definition sfidoColor :: "SurfaceColors \<Rightarrow> string" where
  "sfidoColor colors =
     (case sfido_color colors of
        None \<Rightarrow> ''#f59e0b''
      | Some c \<Rightarrow> (if c = [] then ''#f59e0b'' else c))"

definition bottomArea :: "ExcavationDimensions \<Rightarrow> jsnum" where
  "bottomArea dims = length_dim dims * width dims"

definition sideLongArea :: "ExcavationDimensions \<Rightarrow> jsnum" where
  "sideLongArea dims = length_dim dims * depth dims"

definition sideShortArea :: "ExcavationDimensions \<Rightarrow> jsnum" where
  "sideShortArea dims = width dims * depth dims"

definition totalLayoutWidth :: "ExcavationDimensions \<Rightarrow> jsnum" where
  "totalLayoutWidth dims =
     (sfido dims * 2) + depth dims + length_dim dims + depth dims + (sfido dims * 2)"

definition totalLayoutHeight :: "ExcavationDimensions \<Rightarrow> jsnum" where
  "totalLayoutHeight dims =
     (sfido dims * 2) + depth dims + width dims + depth dims + (sfido dims * 2)"

definition drawAreaWidth :: "env \<Rightarrow> jsnum" where
  "drawAreaWidth rt = pageWidth rt - margin * 2"

definition scaleX :: "env \<Rightarrow> ExcavationDimensions \<Rightarrow> jsnum" where
  "scaleX rt dims = drawAreaWidth rt / totalLayoutWidth dims"

definition scaleY :: "ExcavationDimensions \<Rightarrow> jsnum" where
  "scaleY dims = drawAreaHeight / totalLayoutHeight dims"

definition scale :: "env \<Rightarrow> ExcavationDimensions \<Rightarrow> jsnum" where
  "scale rt dims = Math_min (scaleX rt dims) (scaleY dims) * Fin 0.85"

definition sLength :: "env \<Rightarrow> ExcavationDimensions \<Rightarrow> jsnum" where
  "sLength rt dims = length_dim dims * scale rt dims"

definition sWidth :: "env \<Rightarrow> ExcavationDimensions \<Rightarrow> jsnum" where
  "sWidth rt dims = width dims * scale rt dims"

definition sDepth :: "env \<Rightarrow> ExcavationDimensions \<Rightarrow> jsnum" where
  "sDepth rt dims = depth dims * scale rt dims"

definition sSfido :: "env \<Rightarrow> ExcavationDimensions \<Rightarrow> jsnum" where
  "sSfido rt dims = sfido dims * scale rt dims"

definition centerX :: "env \<Rightarrow> jsnum" where
  "centerX rt = pageWidth rt / 2"

definition centerY :: "jsnum \<Rightarrow> jsnum" where
  "centerY yPos = yPos + drawAreaHeight / 2"

definition baseX :: "env \<Rightarrow> ExcavationDimensions \<Rightarrow> jsnum" where
  "baseX rt dims = centerX rt - sLength rt dims / 2"

definition baseY :: "env \<Rightarrow> ExcavationDimensions \<Rightarrow> jsnum \<Rightarrow> jsnum" where
  "baseY rt dims yPos = centerY yPos - sWidth rt dims / 2"

definition page1_title :: "env \<Rightarrow> jsnum \<Rightarrow> pdf_cmd list" where
  "page1_title rt yPos =
     [ SetTextColor 30 41 59,
       SetFontSize 14,
       SetFont ''helvetica'' ''bold'',
       Text ''GeoViz - Vista Sviluppata TNT'' margin (yPos + 5) None,
       SetFontSize 8,
       SetFont ''helvetica'' ''normal'',
       SetTextColor 100 116 139,
       Text (toLocaleDateString rt) (pageWidth rt - margin - 20) (yPos + 5) None ]"

definition drawSurface ::
  "env \<Rightarrow> jsnum \<Rightarrow> jsnum \<Rightarrow> jsnum \<Rightarrow> jsnum \<Rightarrow> string \<Rightarrow> string \<Rightarrow> jsnum \<Rightarrow> pdf_cmd list" where
  "drawSurface rt x y w h color' label' area' =
     (let fontSize = Math_min 9 (Math_max 5 (Math_min w h / 5)) in
      [ SetFillColor (parseInt (slice color' 1 3) 16) (parseInt (slice color' 3 5) 16)
          (parseInt (slice color' 5 7) 16),
        Rect x y w h ''F'',
        SetDrawColor 255 255 255,
        SetLineWidth (Fin 0.4),
        Rect x y w h ''S'',
        SetTextColor 255 255 255,
        SetFont ''helvetica'' ''bold'',
        SetFontSize fontSize,
        Text label' (x + w / 2) (y + h / 2 - 2) (Some ''center''),
        SetFontSize (fontSize * Fin 1.2),
        Text (toFixed rt area' 1 @ '' m'' @ sup2) (x + w / 2) (y + h / 2 + 4) (Some ''center'') ])"

definition page1_surfaces ::
  "env \<Rightarrow> ExcavationDimensions \<Rightarrow> SurfaceColors \<Rightarrow> jsnum \<Rightarrow> pdf_cmd list" where
  "page1_surfaces rt dims colors yPos =
     (let baseX = baseX rt dims; baseY = baseY rt dims yPos;
          sLength = sLength rt dims; sWidth = sWidth rt dims; sDepth = sDepth rt dims in
      drawSurface rt baseX baseY sLength sWidth (bottom colors) ''BASE'' (bottomArea dims)
      @ drawSurface rt baseX (baseY - sDepth) sLength sDepth (sides_long colors)
          ''PARETE LUNGA'' (sideLongArea dims)
      @ drawSurface rt baseX (baseY + sWidth) sLength sDepth (sides_long colors)
          ''PARETE LUNGA'' (sideLongArea dims)
      @ drawSurface rt (baseX - sDepth) baseY sDepth sWidth (sides_short colors)
          ''P.CORTA'' (sideShortArea dims)
      @ drawSurface rt (baseX + sLength) baseY sDepth sWidth (sides_short colors)
          ''P.CORTA'' (sideShortArea dims))"

definition sfido_labels :: "env \<Rightarrow> ExcavationDimensions \<Rightarrow> jsnum \<Rightarrow> pdf_cmd list" where
  "sfido_labels rt dims yPos =
     (let baseX = baseX rt dims; baseY = baseY rt dims yPos;
          sLength = sLength rt dims; sWidth = sWidth rt dims; sDepth = sDepth rt dims;
          sSfido = sSfido rt dims in
      [ Text ''SFIDO'' (baseX + sLength / 2) (baseY - sDepth - sSfido / 2) (Some ''center''),
        Text ''SFIDO'' (baseX + sLength / 2) (baseY + sWidth + sDepth + sSfido / 2 + 1)
          (Some ''center'') ])"

definition sfido_rects :: "env \<Rightarrow> ExcavationDimensions \<Rightarrow> jsnum \<Rightarrow> pdf_cmd list" where
  "sfido_rects rt dims yPos =
     (let baseX = baseX rt dims; baseY = baseY rt dims yPos;
          sLength = sLength rt dims; sWidth = sWidth rt dims; sDepth = sDepth rt dims;
          sSfido = sSfido rt dims in
      [ Rect baseX (baseY - sDepth - sSfido) sLength sSfido ''FD'',
        Rect baseX (baseY + sWidth + sDepth) sLength sSfido ''FD'',
        Rect (baseX - sDepth - sSfido) baseY sSfido sWidth ''FD'',
        Rect (baseX + sLength + sDepth) baseY sSfido sWidth ''FD'' ])"

definition page1_sfido_strips ::
  "env \<Rightarrow> ExcavationDimensions \<Rightarrow> SurfaceColors \<Rightarrow> jsnum \<Rightarrow> pdf_cmd list" where
  "page1_sfido_strips rt dims colors yPos =
     (if 0 < sfido dims \<and> 2 < sSfido rt dims then
        (let sfR = parseInt (slice (sfidoColor colors) 1 3) 16;
             sfG = parseInt (slice (sfidoColor colors) 3 5) 16;
             sfB = parseInt (slice (sfidoColor colors) 5 7) 16 in
         [ SetFillColor sfR sfG sfB,
           SetDrawColor (sfR - 40) (sfG - 40) (sfB - 40),
           SetLineWidth (Fin 0.3) ]
         @ sfido_rects rt dims yPos
         @ [ SetTextColor 80 50 0,
             SetFontSize 6,
             SetFont ''helvetica'' ''bold'' ]
         @ (if 6 < sSfido rt dims then sfido_labels rt dims yPos else []))
      else [])"

definition page1_fold_lines :: "env \<Rightarrow> ExcavationDimensions \<Rightarrow> jsnum \<Rightarrow> pdf_cmd list" where
  "page1_fold_lines rt dims yPos =
     (let baseX = baseX rt dims; baseY = baseY rt dims yPos;
          sLength = sLength rt dims; sWidth = sWidth rt dims in
      [ SetDrawColor 100 116 139,
        SetLineWidth (Fin 0.3),
        SetLineDashPattern [2, 2] 0,
        Line baseX baseY (baseX + sLength) baseY,
        Line baseX (baseY + sWidth) (baseX + sLength) (baseY + sWidth),
        Line baseX baseY baseX (baseY + sWidth),
        Line (baseX + sLength) baseY (baseX + sLength) (baseY + sWidth),
        SetLineDashPattern [] 0 ])"

subsection \<open>Page 1: summary table, overlap block and total\<close>

record TableRow =
  row_color :: string
  row_name :: string
  row_dims :: string
  row_area :: jsnum
  row_qty :: jsnum

definition page1_table_header :: "env \<Rightarrow> jsnum \<Rightarrow> pdf_cmd list \<times> jsnum" where
  "page1_table_header rt yPos0 =
     (let yPos = yPos0;
          c1 = [ SetTextColor 30 41 59,
                 SetFontSize 11,
                 SetFont ''helvetica'' ''bold'',
                 Text ''Riepilogo Superfici'' margin yPos None ];
          yPos = yPos + 6;
          c2 = [ SetFillColor 241 245 249,
                 Rect margin (yPos - 3) (pageWidth rt - margin * 2) 6 ''F'',
                 SetFontSize 8,
                 SetTextColor 71 85 105,
                 Text ''Superficie'' (margin + 15) yPos None,
                 Text ''Dimensioni'' (margin + 55) yPos None,
                 Text ''Area'' (margin + 100) yPos None,
                 Text (''Qt'' @ a_grave) (margin + 130) yPos None,
                 Text ''Totale'' (margin + 150) yPos None ];
          yPos = yPos + 6
      in (c1 @ c2, yPos))"

definition rows :: "env \<Rightarrow> ExcavationDimensions \<Rightarrow> SurfaceColors \<Rightarrow> TableRow list" where
  "rows rt dims colors =
     [ \<lparr> row_color = bottom colors, row_name = ''Base'',
         row_dims = toFixed rt (length_dim dims) 1 @ times_sign @ toFixed rt (width dims) 1 @ ''m'',
         row_area = bottomArea dims, row_qty = 1 \<rparr>,
       \<lparr> row_color = sides_long colors, row_name = ''Pareti Lunghe'',
         row_dims = toFixed rt (length_dim dims) 1 @ times_sign @ toFixed rt (depth dims) 1 @ ''m'',
         row_area = sideLongArea dims, row_qty = 2 \<rparr>,
       \<lparr> row_color = sides_short colors, row_name = ''Pareti Corte'',
         row_dims = toFixed rt (width dims) 1 @ times_sign @ toFixed rt (depth dims) 1 @ ''m'',
         row_area = sideShortArea dims, row_qty = 2 \<rparr> ]"

fun rows_forEach :: "env \<Rightarrow> TableRow list \<Rightarrow> jsnum \<Rightarrow> pdf_cmd list \<times> jsnum" where
  "rows_forEach rt [] yPos = ([], yPos)"
| "rows_forEach rt (r # rs) yPos =
     (let c = [ SetFillColor (parseInt (slice (row_color r) 1 3) 16)
                  (parseInt (slice (row_color r) 3 5) 16) (parseInt (slice (row_color r) 5 7) 16),
                Rect (margin + 3) (yPos - Fin 2.5) 8 4 ''F'',
                SetTextColor 71 85 105,
                SetFont ''helvetica'' ''normal'',
                Text (row_name r) (margin + 15) yPos None,
                Text (row_dims r) (margin + 55) yPos None,
                Text (toFixed rt (row_area r) 1 @ '' m'' @ sup2) (margin + 100) yPos None,
                Text (times_sign @ toString rt (row_qty r)) (margin + 130) yPos None,
                SetFont ''helvetica'' ''bold'',
                Text (toFixed rt (row_area r * row_qty r) 1 @ '' m'' @ sup2) (margin + 150) yPos None ];
          rest = rows_forEach rt rs (yPos + 5)
      in (c @ fst rest, snd rest))"

definition page1_subtotal ::
  "env \<Rightarrow> ExcavationDimensions \<Rightarrow> SurfaceColors \<Rightarrow> jsnum \<Rightarrow> pdf_cmd list \<times> jsnum" where
  "page1_subtotal rt dims colors yPos0 =
     (let yPos = yPos0;
          c1 = [ SetDrawColor 200 200 200,
                 Line margin yPos (pageWidth rt - margin) yPos ];
          yPos = yPos + 4;
          c2 = [ SetFont ''helvetica'' ''normal'',
                 Text ''Subtotale superfici:'' (margin + 55) yPos None,
                 SetFont ''helvetica'' ''bold'',
                 Text (toFixed rt (totalArea (surfaces rt dims colors)) 1 @ '' m'' @ sup2)
                   (margin + 150) yPos None ];
          yPos = yPos + 8
      in (c1 @ c2, yPos))"

definition page1_sfido_summary ::
  "env \<Rightarrow> ExcavationDimensions \<Rightarrow> jsnum \<Rightarrow> pdf_cmd list \<times> jsnum" where
  "page1_sfido_summary rt dims yPos =
     (if 0 < sfido dims then
        ([ SetFillColor 254 243 199,
           Rect margin (yPos - 3) (pageWidth rt - margin * 2) 18 ''F'',
           SetTextColor 146 64 14,
           SetFont ''helvetica'' ''bold'',
           SetFontSize 9,
           Text (''SFIDO ('' @ toString rt (sfido dims) @ ''m sul bordo superiore)'')
             (margin + 5) (yPos + 2) None,
           SetFont ''helvetica'' ''normal'',
           SetFontSize 8,
           Text (''Pareti lunghe: '' @ toFixed rt (length_dim dims) 1 @ ''m '' @ times_sign @ '' ''
                   @ toString rt (sfido dims) @ ''m '' @ times_sign @ '' 2 = ''
                   @ toFixed rt (sfidoLunghe (sfidoData dims)) 1 @ '' m'' @ sup2)
             (margin + 5) (yPos + 8) None,
           Text (''Pareti corte: '' @ toFixed rt (width dims) 1 @ ''m '' @ times_sign @ '' ''
                   @ toString rt (sfido dims) @ ''m '' @ times_sign @ '' 2 = ''
                   @ toFixed rt (sfidoCorte (sfidoData dims)) 1 @ '' m'' @ sup2)
             (margin + 5) (yPos + 13) None,
           SetFont ''helvetica'' ''bold'',
           Text (''Totale sfido: '' @ toFixed rt (totale (sfidoData dims)) 1 @ '' m'' @ sup2)
             (margin + 120) (yPos + 10) None ],
         yPos + 22)
      else ([], yPos))"

definition page1_total ::
  "env \<Rightarrow> ExcavationDimensions \<Rightarrow> SurfaceColors \<Rightarrow> jsnum \<Rightarrow> pdf_cmd list" where
  "page1_total rt dims colors yPos =
     [ SetFillColor 30 41 59,
       RoundedRect margin yPos (pageWidth rt - margin * 2) 16 2 2 ''F'',
       SetTextColor 148 163 184,
       SetFontSize 8,
       Text (''Superfici: '' @ toFixed rt (totalArea (surfaces rt dims colors)) 1 @ '' m'' @ sup2
               @ '' + Sfido: '' @ toFixed rt (totale (sfidoData dims)) 1 @ '' m'' @ sup2)
         (margin + 5) (yPos + 6) None,
       SetTextColor 255 255 255,
       SetFont ''helvetica'' ''bold'',
       SetFontSize 10,
       Text ''TOTALE TNT:'' (margin + 5) (yPos + 12) None,
       SetFontSize 16,
       SetTextColor 251 191 36,
       Text (toFixed rt (totalAreaConSfido rt dims colors) 1 @ '' m'' @ sup2)
         (margin + 45) (yPos + 12) None ]"

definition page1_footer :: "env \<Rightarrow> pdf_cmd list" where
  "page1_footer rt =
     [ SetTextColor 148 163 184,
       SetFontSize 7,
       Text ''Pagina 1/2'' (pageWidth rt / 2) (pageHeight rt - 5) (Some ''center'') ]"

subsection \<open>Page 2: isometric view\<close>

text \<open>
  \<open>toIso\<close> is a closure over the centre of the drawing; the two coordinates of the
  centre are its first arguments here.
\<close>

definition isoAngle :: jsnum where
  "isoAngle = Math_PI / 6"

definition cos30 :: jsnum where
  "cos30 = Math_cos isoAngle"

definition sin30 :: jsnum where
  "sin30 = Math_sin isoAngle"

definition toIso :: "jsnum \<Rightarrow> jsnum \<Rightarrow> jsnum \<Rightarrow> jsnum \<Rightarrow> jsnum \<Rightarrow> pt" where
  "toIso isoCenterX isoCenterY x y z =
     (isoCenterX + (x - z) * cos30, isoCenterY - y + (x + z) * sin30)"

definition isoScale :: jsnum where
  "isoScale = 16"

definition sL :: "ExcavationDimensions \<Rightarrow> jsnum" where
  "sL dims = length_dim dims * isoScale"

definition sW :: "ExcavationDimensions \<Rightarrow> jsnum" where
  "sW dims = width dims * isoScale"

definition sD :: "ExcavationDimensions \<Rightarrow> jsnum" where
  "sD dims = depth dims * isoScale"

definition sSfidoIso :: "ExcavationDimensions \<Rightarrow> jsnum" where
  "sSfidoIso dims = sfido dims * isoScale"

definition isoCenterX :: "env \<Rightarrow> jsnum" where
  "isoCenterX rt = pageWidth rt / 2"

definition isoCenterY :: jsnum where
  "isoCenterY = 130"

record Vertices =
  v_A :: pt
  v_B :: pt
  v_C :: pt
  v_D :: pt
  v_E :: pt
  v_F :: pt
  v_G :: pt
  v_H :: pt

definition v :: "env \<Rightarrow> ExcavationDimensions \<Rightarrow> Vertices" where
  "v rt dims =
     (let sL = sL dims; sW = sW dims; sD = sD dims;
          toIso = toIso (isoCenterX rt) isoCenterY in
      \<lparr> v_A = toIso (- sL / 2) 0 (- sW / 2), v_B = toIso (sL / 2) 0 (- sW / 2),
        v_C = toIso (sL / 2) 0 (sW / 2), v_D = toIso (- sL / 2) 0 (sW / 2),
        v_E = toIso (- sL / 2) sD (- sW / 2), v_F = toIso (sL / 2) sD (- sW / 2),
        v_G = toIso (sL / 2) sD (sW / 2), v_H = toIso (- sL / 2) sD (sW / 2) \<rparr>)"

text \<open>
  \<open>fillPoly\<close> reads \<open>pts[0]\<close> first; every call passes four points, and the
  function is left unspecified on the empty list.
\<close>

fun fillPoly :: "pt list \<Rightarrow> jsnum \<Rightarrow> jsnum \<Rightarrow> jsnum \<Rightarrow> pdf_cmd list" where
  "fillPoly (p # ps) r g b =
     [SetFillColor r g b, MoveTo (fst p) (snd p)]
     @ map (\<lambda>q. LineTo (fst q) (snd q)) (p # ps)
     @ [Fill]"

definition page2_title :: "env \<Rightarrow> jsnum \<Rightarrow> pdf_cmd list" where
  "page2_title rt yPos =
     [ SetTextColor 30 41 59,
       SetFontSize 14,
       SetFont ''helvetica'' ''bold'',
       Text ''GeoViz - Vista 3D Isometrica'' margin (yPos + 5) None,
       SetFontSize 8,
       SetFont ''helvetica'' ''normal'',
       SetTextColor 100 116 139,
       Text (toLocaleDateString rt) (pageWidth rt - margin - 20) (yPos + 5) None ]"

definition page2_walls :: "env \<Rightarrow> ExcavationDimensions \<Rightarrow> SurfaceColors \<Rightarrow> pdf_cmd list" where
  "page2_walls rt dims colors =
     (let v = v rt dims;
          sLR = parseInt (slice (sides_long colors) 1 3) 16;
          sLG = parseInt (slice (sides_long colors) 3 5) 16;
          sLB = parseInt (slice (sides_long colors) 5 7) 16;
          sSR = parseInt (slice (sides_short colors) 1 3) 16;
          sSG = parseInt (slice (sides_short colors) 3 5) 16;
          sSB = parseInt (slice (sides_short colors) 5 7) 16;
          bR = parseInt (slice (bottom colors) 1 3) 16;
          bG = parseInt (slice (bottom colors) 3 5) 16;
          bB = parseInt (slice (bottom colors) 5 7) 16 in
      fillPoly [v_A v, v_B v, v_F v, v_E v] sLR sLG sLB
      @ fillPoly [v_A v, v_D v, v_H v, v_E v] sSR sSG sSB
      @ fillPoly [v_A v, v_B v, v_C v, v_D v] bR bG bB
      @ fillPoly [v_B v, v_C v, v_G v, v_F v]
          (Math_min 255 (sSR + 30)) (Math_min 255 (sSG + 30)) (Math_min 255 (sSB + 30))
      @ fillPoly [v_D v, v_C v, v_G v, v_H v]
          (Math_min 255 (sLR + 20)) (Math_min 255 (sLG + 20)) (Math_min 255 (sLB + 20)))"

record SfidoVertices =
  E_out :: pt
  F_out :: pt
  G_out :: pt
  H_out :: pt
  E_side :: pt
  F_side :: pt
  G_side :: pt
  H_side :: pt

definition sfV :: "env \<Rightarrow> ExcavationDimensions \<Rightarrow> SfidoVertices" where
  "sfV rt dims =
     (let sL = sL dims; sW = sW dims; sD = sD dims; sSfidoIso = sSfidoIso dims;
          toIso = toIso (isoCenterX rt) isoCenterY in
      \<lparr> E_out = toIso (- sL / 2) sD (- sW / 2 - sSfidoIso),
        F_out = toIso (sL / 2) sD (- sW / 2 - sSfidoIso),
        G_out = toIso (sL / 2) sD (sW / 2 + sSfidoIso),
        H_out = toIso (- sL / 2) sD (sW / 2 + sSfidoIso),
        E_side = toIso (- sL / 2 - sSfidoIso) sD (- sW / 2),
        F_side = toIso (sL / 2 + sSfidoIso) sD (- sW / 2),
        G_side = toIso (sL / 2 + sSfidoIso) sD (sW / 2),
        H_side = toIso (- sL / 2 - sSfidoIso) sD (sW / 2) \<rparr>)"

definition page2_sfido :: "env \<Rightarrow> ExcavationDimensions \<Rightarrow> SurfaceColors \<Rightarrow> pdf_cmd list" where
  "page2_sfido rt dims colors =
     (if 0 < sfido dims then
        (let v = v rt dims; sfV = sfV rt dims;
             sfR = parseInt (slice (sfidoColor colors) 1 3) 16;
             sfG = parseInt (slice (sfidoColor colors) 3 5) 16;
             sfB = parseInt (slice (sfidoColor colors) 5 7) 16 in
         fillPoly [v_E v, v_F v, F_out sfV, E_out sfV]
           (Math_max 0 (sfR - 30)) (Math_max 0 (sfG - 30)) (Math_max 0 (sfB - 30))
         @ fillPoly [v_E v, E_side sfV, H_side sfV, v_H v]
             (Math_max 0 (sfR - 15)) (Math_max 0 (sfG - 15)) (Math_max 0 (sfB - 15))
         @ fillPoly [v_F v, v_G v, G_side sfV, F_side sfV]
             (Math_min 255 (sfR + 15)) (Math_min 255 (sfG + 15)) (Math_min 255 (sfB + 15))
         @ fillPoly [v_H v, H_out sfV, G_out sfV, v_G v] sfR sfG sfB
         @ [ SetDrawColor 100 70 0,
             SetLineWidth (Fin 0.3),
             Line (fst (E_out sfV)) (snd (E_out sfV)) (fst (F_out sfV)) (snd (F_out sfV)),
             Line (fst (F_side sfV)) (snd (F_side sfV)) (fst (G_side sfV)) (snd (G_side sfV)),
             Line (fst (G_out sfV)) (snd (G_out sfV)) (fst (H_out sfV)) (snd (H_out sfV)),
             Line (fst (H_side sfV)) (snd (H_side sfV)) (fst (E_side sfV)) (snd (E_side sfV)) ])
      else [])"

definition line_forEach :: "(pt \<times> pt) list \<Rightarrow> pdf_cmd list" where
  "line_forEach es = map (\<lambda>(a, b). Line (fst a) (snd a) (fst b) (snd b)) es"

definition page2_edges :: "env \<Rightarrow> ExcavationDimensions \<Rightarrow> pdf_cmd list" where
  "page2_edges rt dims =
     (let v = v rt dims in
      [ SetDrawColor 40 40 40,
        SetLineWidth (Fin 0.5) ]
      @ line_forEach [(v_A v, v_B v), (v_B v, v_C v), (v_C v, v_D v), (v_D v, v_A v)]
      @ line_forEach [(v_A v, v_E v), (v_B v, v_F v), (v_C v, v_G v), (v_D v, v_H v)]
      @ [ SetLineDashPattern [2, 1] 0,
          SetDrawColor 80 80 80 ]
      @ line_forEach [(v_E v, v_F v), (v_F v, v_G v), (v_G v, v_H v), (v_H v, v_E v)]
      @ [ SetLineDashPattern [] 0 ])"

subsection \<open>Page 2: legend and dimensions; the handler\<close>

record LegendItem =
  item_color :: string
  item_name :: string
  item_area :: jsnum
  item_qty :: jsnum

definition legendData ::
  "ExcavationDimensions \<Rightarrow> SurfaceColors \<Rightarrow> LegendItem list" where
  "legendData dims colors =
     (let legendData =
            [ \<lparr> item_color = bottom colors, item_name = ''Base'',
                item_area = bottomArea dims, item_qty = 1 \<rparr>,
              \<lparr> item_color = sides_long colors, item_name = ''Pareti Lunghe'',
                item_area = sideLongArea dims, item_qty = 2 \<rparr>,
              \<lparr> item_color = sides_short colors, item_name = ''Pareti Corte'',
                item_area = sideShortArea dims, item_qty = 2 \<rparr> ] in
      if 0 < sfido dims then
        legendData @ [ \<lparr> item_color = sfidoColor colors, item_name = ''Sfido (bordo sup.)'',
                         item_area = totale (sfidoData dims), item_qty = 1 \<rparr> ]
      else legendData)"

fun legendData_forEach :: "env \<Rightarrow> LegendItem list \<Rightarrow> jsnum \<Rightarrow> pdf_cmd list \<times> jsnum" where
  "legendData_forEach rt [] yPos = ([], yPos)"
| "legendData_forEach rt (item # items) yPos =
     (let c = [ SetFillColor (parseInt (slice (item_color item) 1 3) 16)
                  (parseInt (slice (item_color item) 3 5) 16)
                  (parseInt (slice (item_color item) 5 7) 16),
                Rect margin (yPos - Fin 2.5) 12 5 ''F'',
                SetTextColor 71 85 105,
                SetFont ''helvetica'' ''normal'',
                SetFontSize 9,
                Text (item_name item) (margin + 16) yPos None,
                Text (toFixed rt (item_area item * item_qty item) 1 @ '' m'' @ sup2)
                  (margin + 70) yPos None ];
          rest = legendData_forEach rt items (yPos + 7)
      in (c @ fst rest, snd rest))"

definition page2_legend ::
  "env \<Rightarrow> ExcavationDimensions \<Rightarrow> SurfaceColors \<Rightarrow> pdf_cmd list \<times> jsnum" where
  "page2_legend rt dims colors =
     (let yPos = 220;
          c1 = [ SetTextColor 30 41 59,
                 SetFontSize 10,
                 SetFont ''helvetica'' ''bold'',
                 Text ''Legenda Superfici'' margin yPos None ];
          yPos = yPos + 8;
          rest = legendData_forEach rt (legendData dims colors) yPos
      in (c1 @ fst rest, snd rest))"

definition page2_dimensions ::
  "env \<Rightarrow> ExcavationDimensions \<Rightarrow> SurfaceColors \<Rightarrow> jsnum \<Rightarrow> pdf_cmd list" where
  "page2_dimensions rt dims colors yPos0 =
     (let yPos = yPos0 + 5 in
      [ SetFillColor 248 250 252,
        RoundedRect margin yPos (pageWidth rt - margin * 2) 20 2 2 ''F'',
        SetTextColor 71 85 105,
        SetFontSize 9,
        SetFont ''helvetica'' ''bold'',
        Text ''Dimensioni Scavo:'' (margin + 5) (yPos + 7) None,
        SetFont ''helvetica'' ''normal'',
        Text (toFixed rt (length_dim dims) 1 @ ''m '' @ times_sign @ '' ''
                @ toFixed rt (width dims) 1 @ ''m '' @ times_sign @ '' ''
                @ toFixed rt (depth dims) 1 @ ''m (L'' @ times_sign @ ''W'' @ times_sign @ ''D)'')
          (margin + 45) (yPos + 7) None,
        Text (''Volume: '' @ toFixed rt (length_dim dims * width dims * depth dims) 1
                @ '' m'' @ sup3)
          (margin + 120) (yPos + 7) None,
        SetFont ''helvetica'' ''bold'',
        SetTextColor 79 70 229,
        Text (''TOTALE TNT: '' @ toFixed rt (totalAreaConSfido rt dims colors) 1 @ '' m'' @ sup2)
          (margin + 5) (yPos + 14) None ])"

definition page2_footer :: "env \<Rightarrow> pdf_cmd list" where
  "page2_footer rt =
     [ SetTextColor 148 163 184,
       SetFontSize 7,
       SetFont ''helvetica'' ''normal'',
       Text ''Pagina 2/2 - GeoViz Dynamic'' (pageWidth rt / 2) (pageHeight rt - 5)
         (Some ''center'') ]"

definition handleExportPDF ::
  "env \<Rightarrow> ExcavationDimensions \<Rightarrow> SurfaceColors \<Rightarrow> pdf_cmd list" where
  "handleExportPDF rt dims colors =
     (let yPos = margin;
          title1 = page1_title rt yPos;
          yPos = 25;
          drawing =
            page1_surfaces rt dims colors yPos
            @ page1_sfido_strips rt dims colors yPos
            @ page1_fold_lines rt dims yPos;
          yPos = centerY yPos + drawAreaHeight / 2 + 10;
          header = page1_table_header rt yPos;
          table = rows_forEach rt (rows rt dims colors) (snd header);
          subtotal = page1_subtotal rt dims colors (snd table);
          summary = page1_sfido_summary rt dims (snd subtotal);
          total = page1_total rt dims colors (snd summary);
          yPos = margin;
          title2 = page2_title rt yPos;
          legend = page2_legend rt dims colors
      in title1 @ drawing @ fst header @ fst table @ fst subtotal @ fst summary @ total
         @ page1_footer rt
         @ [AddPage]
         @ title2
         @ page2_walls rt dims colors
         @ page2_sfido rt dims colors
         @ page2_edges rt dims
         @ fst legend
         @ page2_dimensions rt dims colors (snd legend)
         @ page2_footer rt
         @ [Save (''GeoViz_Scavo_'' @ slice (toISOString rt) 0 10 @ ''.pdf'')])"

section \<open>The export handler without overlap strips\<close>

text \<open>
  \<open>handleExportPDF\<close> of the earlier revision of the application, whose dimensions
  have no \<open>sfido\<close> entry: the definitions below read only length, width and depth.
  Names that the two revisions share carry the suffix \<open>_base\<close> here. The local
  helper \<open>drawFace\<close> of this revision is never called and has no counterpart.
\<close>

text \<open>\<open>Math.atan2(y, x)\<close>.\<close>

fun Math_atan2 :: "jsnum \<Rightarrow> jsnum \<Rightarrow> jsnum" where
  "Math_atan2 NaN x = NaN"
| "Math_atan2 y NaN = NaN"
| "Math_atan2 (Fin y) (Fin x) =
     Fin (if 0 < x then arctan (y / x)
          else if x < 0 then (if 0 \<le> y then arctan (y / x) + pi else arctan (y / x) - pi)
          else if 0 < y then pi / 2
          else if y < 0 then - (pi / 2)
          else 0)"
| "Math_atan2 (Fin y) PInf = Fin 0"
| "Math_atan2 (Fin y) NInf = Fin (if 0 \<le> y then pi else - pi)"
| "Math_atan2 PInf (Fin x) = Fin (pi / 2)"
| "Math_atan2 NInf (Fin x) = Fin (- (pi / 2))"
| "Math_atan2 PInf PInf = Fin (pi / 4)"
| "Math_atan2 PInf NInf = Fin (3 * pi / 4)"
| "Math_atan2 NInf PInf = Fin (- (pi / 4))"
| "Math_atan2 NInf NInf = Fin (- (3 * pi / 4))"

subsection \<open>Page 1 of the earlier revision\<close>

definition margin_base :: jsnum where
  "margin_base = 15"

definition maxDrawHeight :: jsnum where
  "maxDrawHeight = 120"

definition page1_header_base :: "env \<Rightarrow> pdf_cmd list" where
  "page1_header_base rt =
     [ SetFillColor 79 70 229,
       Rect 0 0 (pageWidth rt) 40 ''F'',
       SetTextColor 255 255 255,
       SetFontSize 22,
       SetFont ''helvetica'' ''bold'',
       Text ''GeoViz Dynamic'' margin_base 18 None,
       SetFontSize 11,
       SetFont ''helvetica'' ''normal'',
       Text ''Configuratore Scavo 3D - Report Tecnico'' margin_base 28 None,
       SetFontSize 9,
       Text (''Data: '' @ toLocaleDateString rt @ '' - Ora: '' @ toLocaleTimeString rt)
         (pageWidth rt - margin_base - 55) 28 None ]"

definition page1_section_title_base :: "jsnum \<Rightarrow> pdf_cmd list \<times> jsnum" where
  "page1_section_title_base yPos =
     ([ SetTextColor 30 41 59,
        SetFontSize 14,
        SetFont ''helvetica'' ''bold'',
        Text ''Vista Sviluppata delle Superfici TNT'' margin_base yPos None ],
      yPos + 8)"

definition drawAreaWidth_base :: "env \<Rightarrow> jsnum" where
  "drawAreaWidth_base rt = pageWidth rt - margin_base * 2"

definition totalLayoutWidth_base :: "ExcavationDimensions \<Rightarrow> jsnum" where
  "totalLayoutWidth_base dims = depth dims + length_dim dims + depth dims"

definition totalLayoutHeight_base :: "ExcavationDimensions \<Rightarrow> jsnum" where
  "totalLayoutHeight_base dims = depth dims + width dims + depth dims"

definition scaleX_base :: "env \<Rightarrow> ExcavationDimensions \<Rightarrow> jsnum" where
  "scaleX_base rt dims = drawAreaWidth_base rt / totalLayoutWidth_base dims"

definition scaleY_base :: "ExcavationDimensions \<Rightarrow> jsnum" where
  "scaleY_base dims = maxDrawHeight / totalLayoutHeight_base dims"

definition scale_base :: "env \<Rightarrow> ExcavationDimensions \<Rightarrow> jsnum" where
  "scale_base rt dims = Math_min (scaleX_base rt dims) (scaleY_base dims) * Fin 0.9"

definition sLength_base :: "env \<Rightarrow> ExcavationDimensions \<Rightarrow> jsnum" where
  "sLength_base rt dims = length_dim dims * scale_base rt dims"

definition sWidth_base :: "env \<Rightarrow> ExcavationDimensions \<Rightarrow> jsnum" where
  "sWidth_base rt dims = width dims * scale_base rt dims"

definition sDepth_base :: "env \<Rightarrow> ExcavationDimensions \<Rightarrow> jsnum" where
  "sDepth_base rt dims = depth dims * scale_base rt dims"

definition startY :: "jsnum \<Rightarrow> jsnum" where
  "startY yPos = yPos + 5"

definition drawSurface_base ::
  "env \<Rightarrow> jsnum \<Rightarrow> jsnum \<Rightarrow> jsnum \<Rightarrow> jsnum \<Rightarrow> string \<Rightarrow> string \<Rightarrow> jsnum \<Rightarrow> string
     \<Rightarrow> pdf_cmd list" where
  "drawSurface_base rt x y w h color' label' area' dims' =
     (let textX = x + w / 2;
          textY = y + h / 2;
          fontSize = Math_min 10 (Math_max 6 (Math_min w h / 4)) in
      [ SetFillColor (parseInt (slice color' 1 3) 16) (parseInt (slice color' 3 5) 16)
          (parseInt (slice color' 5 7) 16),
        Rect x y w h ''F'',
        SetDrawColor 255 255 255,
        SetLineWidth (Fin 0.5),
        Rect x y w h ''S'',
        SetTextColor 255 255 255,
        SetFont ''helvetica'' ''bold'',
        SetFontSize fontSize,
        Text label' textX (textY - fontSize * Fin 0.4) (Some ''center''),
        SetFontSize (fontSize * Fin 1.3),
        Text (toFixed rt area' 2 @ '' m'' @ sup2) textX (textY + fontSize * Fin 0.5)
          (Some ''center''),
        SetFontSize (fontSize * Fin 0.7),
        SetFont ''helvetica'' ''normal'',
        Text dims' textX (textY + fontSize * Fin 1.2) (Some ''center'') ])"

definition page1_surfaces_base ::
  "env \<Rightarrow> ExcavationDimensions \<Rightarrow> SurfaceColors \<Rightarrow> jsnum \<Rightarrow> pdf_cmd list" where
  "page1_surfaces_base rt dims colors yPos =
     (let sLength = sLength_base rt dims; sWidth = sWidth_base rt dims;
          sDepth = sDepth_base rt dims;
          centerX = pageWidth rt / 2;
          startY = startY yPos;
          baseX = centerX - sLength / 2;
          baseY = startY + sDepth;
          longWall1X = centerX - sLength / 2;
          longWall1Y = startY;
          longWall2X = centerX - sLength / 2;
          longWall2Y = startY + sDepth + sWidth;
          shortWall1X = centerX - sLength / 2 - sDepth;
          shortWall1Y = startY + sDepth;
          shortWall2X = centerX + sLength / 2;
          shortWall2Y = startY + sDepth in
      drawSurface_base rt baseX baseY sLength sWidth (bottom colors) ''BASE'' (bottomArea dims)
        (toFixed rt (length_dim dims) 1 @ ''m '' @ times_sign @ '' '' @ toFixed rt (width dims) 1 @ ''m'')
      @ drawSurface_base rt longWall1X longWall1Y sLength sDepth (sides_long colors)
          ''PARETE LUNGA 1'' (sideLongArea dims)
          (toFixed rt (length_dim dims) 1 @ ''m '' @ times_sign @ '' '' @ toFixed rt (depth dims) 1 @ ''m'')
      @ drawSurface_base rt longWall2X longWall2Y sLength sDepth (sides_long colors)
          ''PARETE LUNGA 2'' (sideLongArea dims)
          (toFixed rt (length_dim dims) 1 @ ''m '' @ times_sign @ '' '' @ toFixed rt (depth dims) 1 @ ''m'')
      @ drawSurface_base rt shortWall1X shortWall1Y sDepth sWidth (sides_short colors)
          ''PARETE CORTA 1'' (sideShortArea dims)
          (toFixed rt (depth dims) 1 @ ''m '' @ times_sign @ '' '' @ toFixed rt (width dims) 1 @ ''m'')
      @ drawSurface_base rt shortWall2X shortWall2Y sDepth sWidth (sides_short colors)
          ''PARETE CORTA 2'' (sideShortArea dims)
          (toFixed rt (depth dims) 1 @ ''m '' @ times_sign @ '' '' @ toFixed rt (width dims) 1 @ ''m''))"

definition page1_fold_lines_base ::
  "env \<Rightarrow> ExcavationDimensions \<Rightarrow> jsnum \<Rightarrow> pdf_cmd list" where
  "page1_fold_lines_base rt dims yPos =
     (let sLength = sLength_base rt dims; sWidth = sWidth_base rt dims;
          sDepth = sDepth_base rt dims;
          baseX = pageWidth rt / 2 - sLength / 2;
          baseY = startY yPos + sDepth in
      [ SetDrawColor 100 116 139,
        SetLineWidth (Fin 0.3),
        SetLineDashPattern [2, 2] 0,
        Line baseX baseY (baseX + sLength) baseY,
        Line baseX (baseY + sWidth) (baseX + sLength) (baseY + sWidth),
        Line baseX baseY baseX (baseY + sWidth),
        Line (baseX + sLength) baseY (baseX + sLength) (baseY + sWidth),
        SetLineDashPattern [] 0 ])"

definition page1_legend_base ::
  "env \<Rightarrow> ExcavationDimensions \<Rightarrow> jsnum \<Rightarrow> pdf_cmd list \<times> jsnum" where
  "page1_legend_base rt dims yPos0 =
     (let yPos = yPos0;
          c1 = [ SetTextColor 30 41 59,
                 SetFontSize 12,
                 SetFont ''helvetica'' ''bold'',
                 Text ''Dimensioni Scavo'' margin_base yPos None ];
          yPos = yPos + 7;
          c2 = [ SetFontSize 10,
                 SetFont ''helvetica'' ''normal'',
                 SetTextColor 71 85 105,
                 Text (''Lunghezza (L): '' @ toFixed rt (length_dim dims) 2
                         @ '' m   |   Larghezza (W): '' @ toFixed rt (width dims) 2
                         @ '' m   |   Profondit'' @ a_grave @ '' (D): '' @ toFixed rt (depth dims) 2
                         @ '' m'')
                   margin_base yPos None ];
          yPos = yPos + 12;
          c3 = [ SetTextColor 30 41 59,
                 SetFontSize 12,
                 SetFont ''helvetica'' ''bold'',
                 Text ''Riepilogo Superfici TNT'' margin_base yPos None ];
          yPos = yPos + 8;
          c4 = [ SetFontSize 9,
                 SetFont ''helvetica'' ''bold'',
                 SetFillColor 241 245 249,
                 Rect margin_base (yPos - 4) (pageWidth rt - margin_base * 2) 7 ''F'',
                 SetTextColor 71 85 105,
                 Text ''Colore'' (margin_base + 3) yPos None,
                 Text ''Superficie'' (margin_base + 20) yPos None,
                 Text ''Dimensioni'' (margin_base + 75) yPos None,
                 Text ''Area unitaria'' (margin_base + 115) yPos None,
                 Text (''Qt'' @ a_grave) (margin_base + 150) yPos None,
                 Text ''Totale'' (margin_base + 165) yPos None ];
          yPos = yPos + 8;
          c5 = [ SetFont ''helvetica'' ''normal'' ]
      in (c1 @ c2 @ c3 @ c4 @ c5, yPos))"

definition surfaceData :: "env \<Rightarrow> ExcavationDimensions \<Rightarrow> SurfaceColors \<Rightarrow> TableRow list" where
  "surfaceData rt dims colors =
     [ \<lparr> row_color = bottom colors, row_name = ''Base'',
         row_dims = toFixed rt (length_dim dims) 1 @ '' '' @ times_sign @ '' ''
                      @ toFixed rt (width dims) 1 @ '' m'',
         row_area = bottomArea dims, row_qty = 1 \<rparr>,
       \<lparr> row_color = sides_long colors, row_name = ''Pareti Lunghe'',
         row_dims = toFixed rt (length_dim dims) 1 @ '' '' @ times_sign @ '' ''
                      @ toFixed rt (depth dims) 1 @ '' m'',
         row_area = sideLongArea dims, row_qty = 2 \<rparr>,
       \<lparr> row_color = sides_short colors, row_name = ''Pareti Corte'',
         row_dims = toFixed rt (width dims) 1 @ '' '' @ times_sign @ '' ''
                      @ toFixed rt (depth dims) 1 @ '' m'',
         row_area = sideShortArea dims, row_qty = 2 \<rparr> ]"

fun surfaceData_forEach :: "env \<Rightarrow> TableRow list \<Rightarrow> jsnum \<Rightarrow> pdf_cmd list \<times> jsnum" where
  "surfaceData_forEach rt [] yPos = ([], yPos)"
| "surfaceData_forEach rt (s # ss) yPos =
     (let c = [ SetFillColor (parseInt (slice (row_color s) 1 3) 16)
                  (parseInt (slice (row_color s) 3 5) 16) (parseInt (slice (row_color s) 5 7) 16),
                Rect (margin_base + 3) (yPos - 3) 10 5 ''F'',
                SetTextColor 71 85 105,
                Text (row_name s) (margin_base + 20) yPos None,
                Text (row_dims s) (margin_base + 75) yPos None,
                Text (toFixed rt (row_area s) 2 @ '' m'' @ sup2) (margin_base + 115) yPos None,
                Text (times_sign @ toString rt (row_qty s)) (margin_base + 150) yPos None,
                SetFont ''helvetica'' ''bold'',
                Text (toFixed rt (row_area s * row_qty s) 2 @ '' m'' @ sup2)
                  (margin_base + 165) yPos None,
                SetFont ''helvetica'' ''normal'' ];
          rest = surfaceData_forEach rt ss (yPos + 7)
      in (c @ fst rest, snd rest))"

definition page1_total_base ::
  "env \<Rightarrow> ExcavationDimensions \<Rightarrow> SurfaceColors \<Rightarrow> jsnum \<Rightarrow> pdf_cmd list" where
  "page1_total_base rt dims colors yPos0 =
     (let yPos = yPos0 + 5 in
      [ SetFillColor 30 41 59,
        RoundedRect margin_base yPos (pageWidth rt - margin_base * 2) 20 2 2 ''F'',
        SetTextColor 255 255 255,
        SetFontSize 10,
        SetFont ''helvetica'' ''normal'',
        Text ''TOTALE FORNITURA TNT'' (margin_base + 8) (yPos + 8) None,
        SetFontSize 18,
        SetFont ''helvetica'' ''bold'',
        Text (toFixed rt (totalArea (surfaces rt dims colors)) 2 @ '' m'' @ sup2)
          (margin_base + 8) (yPos + 16) None,
        SetFontSize 8,
        SetFont ''helvetica'' ''italic'',
        SetTextColor 148 163 184,
        Text ''* Calcolo: 1 base + 2 pareti lunghe + 2 pareti corte''
          (pageWidth rt - margin_base - 65) (yPos + 16) None ])"

definition page1_footer_base :: "env \<Rightarrow> pdf_cmd list" where
  "page1_footer_base rt =
     [ SetTextColor 148 163 184,
       SetFontSize 7,
       SetFont ''helvetica'' ''normal'',
       Text ''Pagina 1/2 - Vista Sviluppata'' (pageWidth rt / 2) (pageHeight rt - 8)
         (Some ''center'') ]"

subsection \<open>Page 2 of the earlier revision\<close>

definition page2_header_base :: "env \<Rightarrow> pdf_cmd list" where
  "page2_header_base rt =
     [ SetFillColor 79 70 229,
       Rect 0 0 (pageWidth rt) 40 ''F'',
       SetTextColor 255 255 255,
       SetFontSize 22,
       SetFont ''helvetica'' ''bold'',
       Text ''GeoViz Dynamic'' margin_base 18 None,
       SetFontSize 11,
       SetFont ''helvetica'' ''normal'',
       Text ''Vista 3D Isometrica con Quote'' margin_base 28 None,
       SetFontSize 9,
       Text (''Data: '' @ toLocaleDateString rt) (pageWidth rt - margin_base - 35) 28 None ]"

definition isoScale_base :: jsnum where
  "isoScale_base = 12"

definition sL_base :: "ExcavationDimensions \<Rightarrow> jsnum" where
  "sL_base dims = length_dim dims * isoScale_base"

definition sW_base :: "ExcavationDimensions \<Rightarrow> jsnum" where
  "sW_base dims = width dims * isoScale_base"

definition sD_base :: "ExcavationDimensions \<Rightarrow> jsnum" where
  "sD_base dims = depth dims * isoScale_base"

definition isoCenterY_base :: "jsnum \<Rightarrow> jsnum" where
  "isoCenterY_base yPos = yPos + 70"

definition vertices :: "env \<Rightarrow> ExcavationDimensions \<Rightarrow> jsnum \<Rightarrow> Vertices" where
  "vertices rt dims yPos =
     (let sL = sL_base dims; sW = sW_base dims; sD = sD_base dims;
          toIso = toIso (isoCenterX rt) (isoCenterY_base yPos) in
      \<lparr> v_A = toIso (- sL / 2) 0 (- sW / 2), v_B = toIso (sL / 2) 0 (- sW / 2),
        v_C = toIso (sL / 2) 0 (sW / 2), v_D = toIso (- sL / 2) 0 (sW / 2),
        v_E = toIso (- sL / 2) sD (- sW / 2), v_F = toIso (sL / 2) sD (- sW / 2),
        v_G = toIso (sL / 2) sD (sW / 2), v_H = toIso (- sL / 2) sD (sW / 2) \<rparr>)"

text \<open>
  Each wall of this revision is drawn by the same four statements: the fill colour, a
  \<open>moveTo\<close> to the first point, a \<open>lineTo\<close> for every point, and \<open>fill\<close>.
  These are the calls of \<open>fillPoly\<close>.
\<close>

definition page2_walls_base ::
  "env \<Rightarrow> ExcavationDimensions \<Rightarrow> SurfaceColors \<Rightarrow> jsnum \<Rightarrow> pdf_cmd list" where
  "page2_walls_base rt dims colors yPos =
     (let vertices = vertices rt dims yPos;
          backWall = [v_A vertices, v_B vertices, v_F vertices, v_E vertices];
          leftWall = [v_A vertices, v_D vertices, v_H vertices, v_E vertices];
          baseFace = [v_A vertices, v_B vertices, v_C vertices, v_D vertices];
          rightWall = [v_B vertices, v_C vertices, v_G vertices, v_F vertices];
          frontWall = [v_D vertices, v_C vertices, v_G vertices, v_H vertices] in
      fillPoly backWall
        (parseInt (slice (sides_long colors) 1 3) 16)
        (parseInt (slice (sides_long colors) 3 5) 16)
        (parseInt (slice (sides_long colors) 5 7) 16)
      @ fillPoly leftWall
          (parseInt (slice (sides_short colors) 1 3) 16)
          (parseInt (slice (sides_short colors) 3 5) 16)
          (parseInt (slice (sides_short colors) 5 7) 16)
      @ fillPoly baseFace
          (parseInt (slice (bottom colors) 1 3) 16)
          (parseInt (slice (bottom colors) 3 5) 16)
          (parseInt (slice (bottom colors) 5 7) 16)
      @ fillPoly rightWall
          (Math_min 255 (parseInt (slice (sides_short colors) 1 3) 16 + 30))
          (Math_min 255 (parseInt (slice (sides_short colors) 3 5) 16 + 30))
          (Math_min 255 (parseInt (slice (sides_short colors) 5 7) 16 + 30))
      @ fillPoly frontWall
          (Math_min 255 (parseInt (slice (sides_long colors) 1 3) 16 + 20))
          (Math_min 255 (parseInt (slice (sides_long colors) 3 5) 16 + 20))
          (Math_min 255 (parseInt (slice (sides_long colors) 5 7) 16 + 20)))"

definition page2_edges_base ::
  "env \<Rightarrow> ExcavationDimensions \<Rightarrow> jsnum \<Rightarrow> pdf_cmd list" where
  "page2_edges_base rt dims yPos =
     (let vertices = vertices rt dims yPos;
          A = v_A vertices; B = v_B vertices; C = v_C vertices; D = v_D vertices;
          E = v_E vertices; F = v_F vertices; G = v_G vertices; H = v_H vertices in
      [ SetDrawColor 50 50 50,
        SetLineWidth (Fin 0.5),
        Line (fst A) (snd A) (fst B) (snd B),
        Line (fst B) (snd B) (fst C) (snd C),
        Line (fst C) (snd C) (fst D) (snd D),
        Line (fst D) (snd D) (fst A) (snd A),
        Line (fst A) (snd A) (fst E) (snd E),
        Line (fst B) (snd B) (fst F) (snd F),
        Line (fst C) (snd C) (fst G) (snd G),
        Line (fst D) (snd D) (fst H) (snd H),
        SetLineDashPattern [2, 1] 0,
        SetDrawColor 100 100 100,
        Line (fst E) (snd E) (fst F) (snd F),
        Line (fst F) (snd F) (fst G) (snd G),
        Line (fst G) (snd G) (fst H) (snd H),
        Line (fst H) (snd H) (fst E) (snd E),
        SetLineDashPattern [] 0 ])"

definition drawArrow ::
  "jsnum \<Rightarrow> jsnum \<Rightarrow> jsnum \<Rightarrow> jsnum \<Rightarrow> string \<Rightarrow> jsnum \<Rightarrow> jsnum \<Rightarrow> pdf_cmd list" where
  "drawArrow fromX fromY toX toY label' labelOffsetX labelOffsetY =
     (let angle = Math_atan2 (toY - fromY) (toX - fromX);
          arrowSize = 2 in
      [ Line fromX fromY toX toY,
        Line toX toY
          (toX - arrowSize * Math_cos (angle - Math_PI / 6))
          (toY - arrowSize * Math_sin (angle - Math_PI / 6)),
        Line toX toY
          (toX - arrowSize * Math_cos (angle + Math_PI / 6))
          (toY - arrowSize * Math_sin (angle + Math_PI / 6)),
        SetTextColor 59 130 246,
        SetFontSize 11,
        SetFont ''helvetica'' ''bold'',
        Text label' (fromX + labelOffsetX) (fromY + labelOffsetY) None ])"

definition page2_arrows_base ::
  "env \<Rightarrow> ExcavationDimensions \<Rightarrow> jsnum \<Rightarrow> pdf_cmd list" where
  "page2_arrows_base rt dims yPos =
     (let sL = sL_base dims; sW = sW_base dims; sD = sD_base dims;
          isoCenterX = isoCenterX rt;
          isoCenterY = isoCenterY_base yPos;
          toIso = toIso isoCenterX isoCenterY;
          baseCenter = toIso 0 0 0;
          backCenter = toIso 0 (sD / 2) (- sW / 2);
          frontCenter = toIso 0 (sD / 2) (sW / 2);
          leftCenter = toIso (- sL / 2) (sD / 2) 0;
          rightCenter = toIso (sL / 2) (sD / 2) 0;
          topCenter = toIso 0 sD 0 in
      [ SetDrawColor 59 130 246,
        SetLineWidth (Fin 0.6) ]
      @ drawArrow (margin_base + 10) (yPos + 10) (fst backCenter - 15) (snd backCenter - 5)
          (toFixed rt (sideLongArea dims) 2 @ '' m'' @ sup2) (- 5) (- 3)
      @ [ SetFontSize 7,
          SetFont ''helvetica'' ''normal'',
          Text ''Parete Lunga'' (margin_base + 5) (yPos + 17) None ]
      @ drawArrow (margin_base + 5) (isoCenterY + 20) (fst leftCenter - 5) (snd leftCenter)
          (toFixed rt (sideShortArea dims) 2 @ '' m'' @ sup2) (- 5) (- 3)
      @ [ SetFontSize 7,
          SetFont ''helvetica'' ''normal'',
          Text ''Parete Corta'' margin_base (isoCenterY + 27) None ]
      @ drawArrow isoCenterX (isoCenterY + sD / 2 + 35) (fst baseCenter) (snd baseCenter + 10)
          (toFixed rt (bottomArea dims) 2 @ '' m'' @ sup2) (- 12) 12
      @ [ SetFontSize 7,
          SetFont ''helvetica'' ''normal'',
          Text ''Base'' (isoCenterX - 5) (isoCenterY + sD / 2 + 48) None ]
      @ drawArrow (pageWidth rt - margin_base - 5) (isoCenterY - 10) (fst rightCenter + 10)
          (snd rightCenter)
          (toFixed rt (sideShortArea dims) 2 @ '' m'' @ sup2) (- 25) (- 3)
      @ [ SetFontSize 7,
          SetFont ''helvetica'' ''normal'',
          Text ''Parete Corta'' (pageWidth rt - margin_base - 22) (isoCenterY - 3) None ]
      @ drawArrow (pageWidth rt - margin_base - 10) (isoCenterY + 45) (fst frontCenter + 15)
          (snd frontCenter + 5)
          (toFixed rt (sideLongArea dims) 2 @ '' m'' @ sup2) (- 30) (- 3)
      @ [ SetFontSize 7,
          SetFont ''helvetica'' ''normal'',
          Text ''Parete Lunga'' (pageWidth rt - margin_base - 25) (isoCenterY + 52) None,
          SetTextColor 100 116 139,
          SetFontSize 8,
          SetFont ''helvetica'' ''italic'',
          Text ''BOCCA DI SCAVO (APERTA)'' (fst topCenter - 25) (snd topCenter - 8) None ])"

record LegendEntry =
  entry_color :: string
  entry_name :: string

definition legendItems :: "SurfaceColors \<Rightarrow> LegendEntry list" where
  "legendItems colors =
     [ \<lparr> entry_color = bottom colors, entry_name = ''Base'' \<rparr>,
       \<lparr> entry_color = sides_long colors, entry_name = ''Pareti Lunghe'' \<rparr>,
       \<lparr> entry_color = sides_short colors, entry_name = ''Pareti Corte'' \<rparr> ]"

fun legendItems_forEach :: "LegendEntry list \<Rightarrow> jsnum \<Rightarrow> jsnum \<Rightarrow> pdf_cmd list" where
  "legendItems_forEach [] yPos legendX = []"
| "legendItems_forEach (item # items) yPos legendX =
     [ SetFillColor (parseInt (slice (entry_color item) 1 3) 16)
         (parseInt (slice (entry_color item) 3 5) 16)
         (parseInt (slice (entry_color item) 5 7) 16),
       Rect legendX (yPos - 3) 8 4 ''F'',
       SetTextColor 71 85 105,
       Text (entry_name item) (legendX + 10) yPos None ]
     @ legendItems_forEach items yPos (legendX + 45)"

definition page2_specs_base ::
  "env \<Rightarrow> ExcavationDimensions \<Rightarrow> SurfaceColors \<Rightarrow> jsnum \<Rightarrow> pdf_cmd list" where
  "page2_specs_base rt dims colors yPos0 =
     (let yPos = yPos0;
          c1 = [ SetTextColor 30 41 59,
                 SetFontSize 12,
                 SetFont ''helvetica'' ''bold'',
                 Text ''Specifiche Tecniche'' margin_base yPos None ];
          yPos = yPos + 8;
          specY = yPos + 4;
          volume = length_dim dims * width dims * depth dims;
          c2 = [ SetFillColor 248 250 252,
                 RoundedRect margin_base (yPos - 3) (pageWidth rt - margin_base * 2) 28 2 2 ''F'',
                 SetFontSize 9,
                 SetFont ''helvetica'' ''normal'',
                 SetTextColor 71 85 105,
                 Text ''Dimensioni:'' (margin_base + 5) specY None,
                 SetFont ''helvetica'' ''bold'',
                 Text (toFixed rt (length_dim dims) 2 @ ''m '' @ times_sign @ '' ''
                         @ toFixed rt (width dims) 2 @ ''m '' @ times_sign @ '' ''
                         @ toFixed rt (depth dims) 2
                         @ ''m (L'' @ times_sign @ ''W'' @ times_sign @ ''D)'')
                   (margin_base + 30) specY None,
                 SetFont ''helvetica'' ''normal'',
                 Text ''Volume:'' (margin_base + 110) specY None,
                 SetFont ''helvetica'' ''bold'',
                 Text (toFixed rt volume 2 @ '' m'' @ sup3) (margin_base + 128) specY None,
                 SetFont ''helvetica'' ''normal'',
                 Text ''Superficie TNT Totale:'' (margin_base + 5) (specY + 8) None,
                 SetFont ''helvetica'' ''bold'',
                 SetTextColor 79 70 229,
                 Text (toFixed rt (totalArea (surfaces rt dims colors)) 2 @ '' m'' @ sup2)
                   (margin_base + 45) (specY + 8) None,
                 SetTextColor 71 85 105,
                 SetFont ''helvetica'' ''normal'',
                 Text ''(1 base + 2 pareti lunghe + 2 pareti corte)'' (margin_base + 65)
                   (specY + 8) None ];
          yPos = specY + 18;
          c3 = [ Text ''Legenda:'' (margin_base + 5) yPos None ];
          legendX = margin_base + 28
      in c1 @ c2 @ c3 @ legendItems_forEach (legendItems colors) yPos legendX)"

definition page2_footer_base :: "env \<Rightarrow> pdf_cmd list" where
  "page2_footer_base rt =
     [ SetTextColor 148 163 184,
       SetFontSize 7,
       SetFont ''helvetica'' ''normal'',
       Text ''Pagina 2/2 - Vista 3D Isometrica | Documento generato da GeoViz Dynamic''
         (pageWidth rt / 2) (pageHeight rt - 8) (Some ''center'') ]"

definition handleExportPDF_base ::
  "env \<Rightarrow> ExcavationDimensions \<Rightarrow> SurfaceColors \<Rightarrow> pdf_cmd list" where
  "handleExportPDF_base rt dims colors =
     (let header1 = page1_header_base rt;
          yPos = 50;
          title = page1_section_title_base yPos;
          yPos = snd title;
          drawing = page1_surfaces_base rt dims colors yPos @ page1_fold_lines_base rt dims yPos;
          yPos = startY yPos + sDepth_base rt dims * 2 + sWidth_base rt dims + 15;
          legend = page1_legend_base rt dims yPos;
          table = surfaceData_forEach rt (surfaceData rt dims colors) (snd legend);
          total = page1_total_base rt dims colors (snd table);
          header2 = page2_header_base rt;
          yPos = 50;
          walls = page2_walls_base rt dims colors yPos;
          edges = page2_edges_base rt dims yPos;
          arrows = page2_arrows_base rt dims yPos;
          yPos = isoCenterY_base yPos + 80
      in header1 @ fst title @ drawing @ fst legend @ fst table @ total
         @ page1_footer_base rt
         @ [AddPage]
         @ header2 @ walls @ edges @ arrows
         @ page2_specs_base rt dims colors yPos
         @ page2_footer_base rt
         @ [Save (''GeoViz_Scavo_'' @ slice (toISOString rt) 0 10 @ ''.pdf'')])"

section \<open>Reading a document\<close>

text \<open>The number of \<open>addPage\<close> calls in a document.\<close>

definition pageBreaks :: "pdf_cmd list \<Rightarrow> nat" where
  "pageBreaks cs = length (filter (\<lambda>c. c = AddPage) cs)"

text \<open>
  The filled paths of a document, in the order they are painted, each with the fill
  colour in force. \<open>moveTo\<close> opens a subpath, \<open>lineTo\<close> extends the last one and
  \<open>fill\<close> paints the path and clears it; rectangles and lines paint themselves and
  leave no path behind. A new document fills in black.
\<close>

type_synonym rgb = "jsnum \<times> jsnum \<times> jsnum"

fun fills_aux :: "rgb \<Rightarrow> pt list list \<Rightarrow> pdf_cmd list \<Rightarrow> (rgb \<times> pt list list) list" where
  "fills_aux col path [] = []"
| "fills_aux col path (SetFillColor r g b # cs) = fills_aux (r, g, b) path cs"
| "fills_aux col path (MoveTo x y # cs) = fills_aux col (path @ [[(x, y)]]) cs"
| "fills_aux col path (LineTo x y # cs) =
     fills_aux col (if path = [] then [[(x, y)]] else butlast path @ [last path @ [(x, y)]]) cs"
| "fills_aux col path (Fill # cs) = (col, path) # fills_aux col [] cs"
| "fills_aux col path (Rect x y w h s # cs) = fills_aux col [] cs"
| "fills_aux col path (RoundedRect x y w h rx ry s # cs) = fills_aux col [] cs"
| "fills_aux col path (Line x1 y1 x2 y2 # cs) = fills_aux col [] cs"
| "fills_aux col path (c # cs) = fills_aux col path cs"

definition fills :: "pdf_cmd list \<Rightarrow> (rgb \<times> pt list list) list" where
  "fills cs = fills_aux (0, 0, 0) [] cs"

fun is_path_cmd :: "pdf_cmd \<Rightarrow> bool" where
  "is_path_cmd (MoveTo x y) = True"
| "is_path_cmd (LineTo x y) = True"
| "is_path_cmd Fill = True"
| "is_path_cmd c = False"



text \<open>
  The five faces of the isometric view in the order the specification gives them, each
  with its fill colour and its outline: back long wall, left short wall, base, right
  short wall (short-wall colour plus 30 on each channel, at most 255), front long wall
  (long-wall colour plus 20 on each channel, at most 255). An outline starts at its
  first corner and visits all four corners from there.
\<close>

definition lighten :: "jsnum \<Rightarrow> string \<Rightarrow> rgb" where
  "lighten delta c =
     (Math_min 255 (parseInt (slice c 1 3) 16 + delta),
      Math_min 255 (parseInt (slice c 3 5) 16 + delta),
      Math_min 255 (parseInt (slice c 5 7) 16 + delta))"

definition channels :: "string \<Rightarrow> rgb" where
  "channels c = (parseInt (slice c 1 3) 16, parseInt (slice c 3 5) 16, parseInt (slice c 5 7) 16)"

definition outline :: "pt \<Rightarrow> pt \<Rightarrow> pt \<Rightarrow> pt \<Rightarrow> pt list list" where
  "outline p q r s = [[p, p, q, r, s]]"

definition painter_order :: "Vertices \<Rightarrow> SurfaceColors \<Rightarrow> (rgb \<times> pt list list) list" where
  "painter_order V colors =
     [ (channels (sides_long colors), outline (v_A V) (v_B V) (v_F V) (v_E V)),
       (channels (sides_short colors), outline (v_A V) (v_D V) (v_H V) (v_E V)),
       (channels (bottom colors), outline (v_A V) (v_B V) (v_C V) (v_D V)),
       (lighten 30 (sides_short colors), outline (v_B V) (v_C V) (v_G V) (v_F V)),
       (lighten 20 (sides_long colors), outline (v_D V) (v_C V) (v_G V) (v_H V)) ]"


text \<open>
  Sample inputs: a page of 210 by 297 units whose formatting functions print nothing,
  the colours the application starts with, and the excavation of 4 by 3 by 2.5 metres
  with and without an overlap of 0.2 metres.
\<close>

definition sample_env :: env where
  "sample_env =
     \<lparr> pageWidth = 210, pageHeight = 297, toFixed = (\<lambda>n k. []), toString = (\<lambda>n. []),
       toLocaleDateString = [], toLocaleTimeString = [], toISOString = [] \<rparr>"

definition sample_colors :: SurfaceColors where
  "sample_colors =
     \<lparr> bottom = ''#3b82f6'', sides_long = ''#ef4444'', sides_short = ''#10b981'',
       sfido_color = Some ''#f59e0b'' \<rparr>"

definition sample_dims :: "jsnum \<Rightarrow> ExcavationDimensions" where
  "sample_dims s = \<lparr> length_dim = 4, width = 3, depth = Fin 2.5, sfido = s \<rparr>"


section \<open>Double precision\<close>

text \<open>
  The arithmetic above is exact. JavaScript rounds the result of every operation to the
  nearest number of the IEEE 754 binary64 format, ties going to the even mantissa. Where
  the order of the additions matters, the area model is evaluated once more with this
  rounding written out.

  \<open>binade n x e\<close> normalises a positive \<open>x\<close> into \<open>[1, 2)\<close> by at most \<open>n\<close>
  halvings or doublings and counts them in \<open>e\<close>; 1100 steps cover the exponents of the
  format. The unit in the last place of a number with exponent \<open>e\<close> is \<open>2\<^sup>e\<^sup>-\<^sup>5\<^sup>2\<close>,
  the exponent being at least \<open>-1022\<close>; a rounded magnitude whose exponent
  reaches 1024 is an infinity.
\<close>

fun binade :: "nat \<Rightarrow> real \<Rightarrow> int \<Rightarrow> int" where
  "binade 0 x e = e"
| "binade (Suc n) x e =
     (if 2 \<le> x then binade n (x / 2) (e + 1)
      else if x < 1 then binade n (x * 2) (e - 1)
      else e)"

definition round_even :: "real \<Rightarrow> int" where
  "round_even m =
     (let f = \<lfloor>m\<rfloor> in
      if m - of_int f < 1 / 2 then f
      else if 1 / 2 < m - of_int f then f + 1
      else if even f then f else f + 1)"

definition to_double :: "real \<Rightarrow> jsnum" where
  "to_double x =
     (if x = 0 then Fin 0
      else
        (let e = max (binade 1100 \<bar>x\<bar> 0) (- 1022);
             u = 2 powi (e - 52);
             y = of_int (round_even (x / u)) * u
         in if 1024 \<le> binade 1100 \<bar>y\<bar> 0 then (if 0 < x then PInf else NInf) else Fin y))"

fun rnd :: "jsnum \<Rightarrow> jsnum" where
  "rnd (Fin x) = to_double x"
| "rnd a = a"

definition surfaces_double ::
  "env \<Rightarrow> ExcavationDimensions \<Rightarrow> SurfaceColors \<Rightarrow> SurfaceData list" where
  "surfaces_double rt dims colors = map (\<lambda>s. s\<lparr>area := rnd (area s)\<rparr>) (surfaces rt dims colors)"

definition totalArea_double :: "SurfaceData list \<Rightarrow> jsnum" where
  "totalArea_double ss =
     foldl (\<lambda>acc s. if id_s s = ''bottom'' then rnd (acc + area s)
                     else rnd (acc + rnd (area s * 2))) 0 ss"

definition sfidoData_double :: "ExcavationDimensions \<Rightarrow> SfidoData" where
  "sfidoData_double dims =
     (let sfidoLunghe' = rnd (rnd (length_dim dims * sfido dims) * 2);
          sfidoCorte' = rnd (rnd (width dims * sfido dims) * 2);
          totale' = rnd (sfidoLunghe' + sfidoCorte')
      in \<lparr> sfidoLunghe = sfidoLunghe', sfidoCorte = sfidoCorte', totale = totale',
           sfido_w = sfido dims \<rparr>)"

definition totalAreaConSfido_double ::
  "env \<Rightarrow> ExcavationDimensions \<Rightarrow> SurfaceColors \<Rightarrow> jsnum" where
  "totalAreaConSfido_double rt dims colors =
     rnd (totalArea_double (surfaces_double rt dims colors) + totale (sfidoData_double dims))"

text \<open>
  The excavation of 4.7 by 4.6 by 2.2 metres without overlap, as the numbers the script
  holds for these literals, and the same excavation with length and width exchanged.
\<close>

definition dims_47 :: ExcavationDimensions where
  "dims_47 =
     \<lparr> length_dim = to_double (47 / 10), width = to_double (46 / 10),
       depth = to_double (22 / 10), sfido = 0 \<rparr>"

definition dims_47_swapped :: ExcavationDimensions where
  "dims_47_swapped =
     \<lparr> length_dim = to_double (46 / 10), width = to_double (47 / 10),
       depth = to_double (22 / 10), sfido = 0 \<rparr>"

section \<open>Arithmetic of the number model\<close>

lemma numeral_jsnum: "(numeral k :: jsnum) = Fin (numeral k)"
proof (induction k)
  case One
  show ?case by (simp add: one_jsnum_def)
next
  case (Bit0 k)
  show ?case by (simp only: numeral_Bit0 [of k] Bit0 plus_jsnum.simps)
next
  case (Bit1 k)
  show ?case by (simp only: numeral_Bit1 [of k] Bit1 one_jsnum_def plus_jsnum.simps)
qed

lemmas jsnum_lit = numeral_jsnum zero_jsnum_def one_jsnum_def minus_jsnum_def

lemma jsnum_add_commute: "(a::jsnum) + b = b + a"
  by (cases a; cases b) simp_all

lemma jsnum_add_assoc: "(a::jsnum) + b + c = a + (b + c)"
  by (cases a; cases b; cases c) simp_all

lemma jsnum_mult_commute: "(a::jsnum) * b = b * a"
  by (cases a; cases b) simp_all

lemma jsnum_zero_add: "(0::jsnum) + a = a"
  by (cases a) (simp_all add: zero_jsnum_def)


section \<open>Properties of the area model\<close>

lemma totalArea_surfaces:
  "totalArea (surfaces rt dims colors) =
     length_dim dims * width dims + length_dim dims * depth dims * 2 + width dims * depth dims * 2"
  by (simp add: totalArea_def surfaces_def jsnum_zero_add)

text \<open>
  C1. The three surface records carry the areas \<open>length * width\<close>, \<open>length * depth\<close>
  and \<open>width * depth\<close>, in this order, and the total is the bottom area plus twice the
  long-wall area plus twice the short-wall area. This holds for every number, in
  particular for all non-negative dimensions.
\<close>

theorem area_correctness:
  "map area (surfaces rt dims colors) =
     [length_dim dims * width dims, length_dim dims * depth dims, width dims * depth dims]
   \<and> totalArea (surfaces rt dims colors) =
     length_dim dims * width dims + 2 * (length_dim dims * depth dims)
       + 2 * (width dims * depth dims)"
  by (simp add: totalArea_surfaces jsnum_mult_commute [of 2]) (simp add: surfaces_def)

text \<open>
  C2. The overlap summary: the long strips measure \<open>length * sfido * 2\<close>, the short
  strips \<open>width * sfido * 2\<close>, the strip total is their sum, and the total with overlap
  is the total area plus the strip total.
\<close>

theorem overlap_correctness:
  "sfidoLunghe (sfidoData dims) = length_dim dims * sfido dims * 2
   \<and> sfidoCorte (sfidoData dims) = width dims * sfido dims * 2
   \<and> totale (sfidoData dims) = sfidoLunghe (sfidoData dims) + sfidoCorte (sfidoData dims)
   \<and> totalAreaConSfido rt dims colors =
       totalArea (surfaces rt dims colors) + totale (sfidoData dims)"
  by (simp add: sfidoData_def totalAreaConSfido_def Let_def)

lemma double_literals:
  "to_double (47 / 10) = Fin (5291729562160333 / 1125899906842624)"
  "to_double (46 / 10) = Fin (2589569785738035 / 562949953421312)"
  "to_double (22 / 10) = Fin (2476979795053773 / 1125899906842624)"
  "to_double (23 / 5) = Fin (2589569785738035 / 562949953421312)"
  "to_double (11 / 5) = Fin (2476979795053773 / 1125899906842624)"
  by code_simp+

lemma totalArea_double_47:
  "totalArea_double (surfaces_double sample_env dims_47 sample_colors)
     = Fin (2200430630435553 / 35184372088832)"
  apply (simp add: totalArea_double_def surfaces_double_def surfaces_def dims_47_def
      double_literals jsnum_lit)
  apply code_simp
  done

lemma totalArea_double_47_swapped:
  "totalArea_double (surfaces_double sample_env dims_47_swapped sample_colors)
     = Fin (4400861260871107 / 70368744177664)"
  apply (simp add: totalArea_double_def surfaces_double_def surfaces_def dims_47_swapped_def
      double_literals jsnum_lit)
  apply code_simp
  done

lemma to_double_zero: "to_double 0 = Fin 0"
  by (simp add: to_double_def)

lemma totale_double_zero:
  "totale (sfidoData_double dims_47) = Fin 0"
  "totale (sfidoData_double dims_47_swapped) = Fin 0"
  by (simp_all add: sfidoData_double_def dims_47_def dims_47_swapped_def double_literals
      to_double_zero jsnum_lit Let_def)

text \<open>
  C10, as the code has it. Exchanging length and width keeps the bottom area and the
  total strip area and exchanges the long-wall area with the short-wall area, in exact
  and in double-precision arithmetic alike. In exact arithmetic the total area and the
  total with overlap are therefore unchanged. In double precision the two wall terms are
  added in the other order, and the totals agree only up to the rounding of the sums.
\<close>

theorem totals_symmetric:
  "totalArea (surfaces rt (dims\<lparr>length_dim := width dims, width := length_dim dims\<rparr>) colors)
     = totalArea (surfaces rt dims colors)
   \<and> totalAreaConSfido rt (dims\<lparr>length_dim := width dims, width := length_dim dims\<rparr>) colors
     = totalAreaConSfido rt dims colors
   \<and> map area (surfaces_double rt dims colors)
     = [rnd (length_dim dims * width dims), rnd (length_dim dims * depth dims),
        rnd (width dims * depth dims)]
   \<and> map area
       (surfaces_double rt (dims\<lparr>length_dim := width dims, width := length_dim dims\<rparr>) colors)
     = [rnd (length_dim dims * width dims), rnd (width dims * depth dims),
        rnd (length_dim dims * depth dims)]
   \<and> totale (sfidoData_double (dims\<lparr>length_dim := width dims, width := length_dim dims\<rparr>))
     = totale (sfidoData_double dims)"
proof -
  let ?l = "length_dim dims" and ?w = "width dims" and ?d = "depth dims" and ?s = "sfido dims"
  have a: "?w * ?l + ?w * ?d * 2 + ?l * ?d * 2 = ?l * ?w + ?l * ?d * 2 + ?w * ?d * 2"
    by (simp add: jsnum_mult_commute [of ?w ?l] jsnum_add_assoc
        jsnum_add_commute [of "?w * ?d * 2"])
  have b: "?w * ?s * 2 + ?l * ?s * 2 = ?l * ?s * 2 + ?w * ?s * 2"
    by (rule jsnum_add_commute)
  have c: "rnd (rnd (?w * ?s) * 2) + rnd (rnd (?l * ?s) * 2)
      = rnd (rnd (?l * ?s) * 2) + rnd (rnd (?w * ?s) * 2)"
    by (rule jsnum_add_commute)
  have e: "totalArea (surfaces rt (dims\<lparr>length_dim := ?w, width := ?l\<rparr>) colors)
      = totalArea (surfaces rt dims colors)"
    "totalAreaConSfido rt (dims\<lparr>length_dim := ?w, width := ?l\<rparr>) colors
      = totalAreaConSfido rt dims colors"
    by (simp_all add: totalAreaConSfido_def totalArea_surfaces sfidoData_def Let_def a b)
  have f: "map area (surfaces_double rt dims colors) = [rnd (?l * ?w), rnd (?l * ?d), rnd (?w * ?d)]"
    "map area (surfaces_double rt (dims\<lparr>length_dim := ?w, width := ?l\<rparr>) colors)
      = [rnd (?l * ?w), rnd (?w * ?d), rnd (?l * ?d)]"
    by (simp_all add: surfaces_double_def surfaces_def jsnum_mult_commute [of ?w ?l])
  have g: "totale (sfidoData_double (dims\<lparr>length_dim := ?w, width := ?l\<rparr>))
      = totale (sfidoData_double dims)"
    by (simp add: sfidoData_double_def Let_def c)
  show ?thesis using e f g by simp
qed

text \<open>
  C10 as stated fails in double precision. For the excavation of 4.7 by 4.6 by 2.2 metres
  without overlap the total area is \<open>2200430630435553 / 2\<^sup>4\<^sup>5\<close>, printed
  \<open>62.53999999999999\<close>; with length and width exchanged it is
  \<open>4400861260871107 / 2\<^sup>4\<^sup>6\<close>, printed \<open>62.540000000000006\<close>. The totals with
  overlap differ in the same way.
\<close>

theorem totals_rounding_counterexample:
  "totalArea_double (surfaces_double sample_env dims_47 sample_colors)
     = Fin (2200430630435553 / 35184372088832)
   \<and> totalArea_double (surfaces_double sample_env dims_47_swapped sample_colors)
     = Fin (4400861260871107 / 70368744177664)
   \<and> totalArea_double (surfaces_double sample_env dims_47_swapped sample_colors)
     \<noteq> totalArea_double (surfaces_double sample_env dims_47 sample_colors)
   \<and> totalAreaConSfido_double sample_env dims_47_swapped sample_colors
     \<noteq> totalAreaConSfido_double sample_env dims_47 sample_colors"
proof -
  have 1: "totalAreaConSfido_double sample_env dims_47 sample_colors
      = Fin (2200430630435553 / 35184372088832)"
    unfolding totalAreaConSfido_double_def totalArea_double_47 totale_double_zero
    apply simp
    apply code_simp
    done
  have 2: "totalAreaConSfido_double sample_env dims_47_swapped sample_colors
      = Fin (4400861260871107 / 70368744177664)"
    unfolding totalAreaConSfido_double_def totalArea_double_47_swapped totale_double_zero
    apply simp
    apply code_simp
    done
  show ?thesis
    unfolding 1 2 totalArea_double_47 totalArea_double_47_swapped by simp
qed

section \<open>The isometric projector\<close>

lemma cos30_value: "cos30 = Fin (sqrt 3 / 2)"
  by (simp add: cos30_def isoAngle_def Math_PI_def jsnum_lit cos_30)

lemma sin30_value: "sin30 = Fin (1 / 2)"
  by (simp add: sin30_def isoAngle_def Math_PI_def jsnum_lit sin_30)

text \<open>
  C4. With centre \<open>(cx, cy)\<close> the projector sends the origin to \<open>(cx, cy)\<close> and the
  point \<open>(1, 0, 0)\<close> to \<open>(cx + cos 30\<degree>, cy + sin 30\<degree>)\<close>; in general the
  screen coordinates are \<open>cx + (x - z) * cos 30\<degree>\<close> and
  \<open>cy - y + (x + z) * sin 30\<degree>\<close>, where the angle is \<open>\<pi>/6\<close>.
\<close>

theorem toIso_known_points:
  "toIso cx cy 0 0 0 = (cx, cy)
   \<and> toIso cx cy 1 0 0 = (cx + cos30, cy + sin30)
   \<and> toIso cx cy x y z = (cx + (x - z) * cos30, cy - y + (x + z) * sin30)
   \<and> cos30 = Fin (cos (pi / 6)) \<and> sin30 = Fin (sin (pi / 6))
   \<and> cos30 = Fin (sqrt 3 / 2) \<and> sin30 = Fin (1 / 2)"
proof -
  have z: "toIso cx cy 0 0 0 = (cx, cy)"
    by (cases cx; cases cy) (simp_all add: toIso_def cos30_value sin30_value jsnum_lit)
  have o: "toIso cx cy 1 0 0 = (cx + cos30, cy + sin30)"
    by (cases cx; cases cy) (simp_all add: toIso_def cos30_value sin30_value jsnum_lit)
  have c: "cos30 = Fin (cos (pi / 6))" "sin30 = Fin (sin (pi / 6))"
    by (simp_all add: cos30_def sin30_def isoAngle_def Math_PI_def jsnum_lit)
  show ?thesis
    using z o c by (simp add: cos30_value sin30_value) (simp add: toIso_def cos30_value sin30_value)
qed

section \<open>The shape of the document\<close>

lemma pageBreaks_simps [simp]:
  "pageBreaks [] = 0"
  "pageBreaks (c # cs) = (if c = AddPage then Suc (pageBreaks cs) else pageBreaks cs)"
  "pageBreaks (xs @ ys) = pageBreaks xs + pageBreaks ys"
  by (simp_all add: pageBreaks_def)


















section \<open>Filled paths of the export\<close>

lemma fills_aux_skip:
  "list_all (\<lambda>c. \<not> is_path_cmd c) xs \<Longrightarrow> \<exists>col'. fills_aux col [] (xs @ ys) = fills_aux col' [] ys"
proof (induction xs arbitrary: col)
  case Nil
  show ?case by (rule exI [of _ col]) simp
next
  case (Cons c cs)
  then show ?case by (cases c) simp_all
qed

lemma fills_aux_no_path:
  "list_all (\<lambda>c. \<not> is_path_cmd c) xs \<Longrightarrow> fills_aux col [] xs = []"
proof (induction xs arbitrary: col)
  case Nil
  show ?case by simp
next
  case (Cons c cs)
  then show ?case by (cases c) simp_all
qed

lemma fills_aux_fillPoly:
  "fills_aux col [] (fillPoly [p, q, r, s] cr cg cb @ rest)
     = ((cr, cg, cb), outline p q r s) # fills_aux (cr, cg, cb) [] rest"
  by (simp add: outline_def)

lemma np_drawSurface: "list_all (\<lambda>c. \<not> is_path_cmd c) (drawSurface rt x y w h c l a)"
  by (simp add: drawSurface_def Let_def)

lemma np_rows_forEach: "list_all (\<lambda>c. \<not> is_path_cmd c) (fst (rows_forEach rt rs y))"
  by (induction rs arbitrary: y) (simp_all add: Let_def)

lemma np_legendData_forEach: "list_all (\<lambda>c. \<not> is_path_cmd c) (fst (legendData_forEach rt rs y))"
  by (induction rs arbitrary: y) (simp_all add: Let_def)

lemma np_line_forEach: "list_all (\<lambda>c. \<not> is_path_cmd c) (line_forEach es)"
  by (induction es) (auto simp: line_forEach_def)

lemma np_page1:
  "list_all (\<lambda>c. \<not> is_path_cmd c) (page1_title rt y)"
  "list_all (\<lambda>c. \<not> is_path_cmd c) (page1_surfaces rt dims colors y)"
  "list_all (\<lambda>c. \<not> is_path_cmd c) (page1_sfido_strips rt dims colors y)"
  "list_all (\<lambda>c. \<not> is_path_cmd c) (page1_fold_lines rt dims y)"
  "list_all (\<lambda>c. \<not> is_path_cmd c) (fst (page1_table_header rt y))"
  "list_all (\<lambda>c. \<not> is_path_cmd c) (fst (page1_subtotal rt dims colors y))"
  "list_all (\<lambda>c. \<not> is_path_cmd c) (fst (page1_sfido_summary rt dims y))"
  "list_all (\<lambda>c. \<not> is_path_cmd c) (page1_total rt dims colors y)"
  "list_all (\<lambda>c. \<not> is_path_cmd c) (page1_footer rt)"
  "list_all (\<lambda>c. \<not> is_path_cmd c) (page2_title rt y)"
  by (simp_all add: page1_title_def page1_surfaces_def page1_sfido_strips_def
      sfido_rects_def sfido_labels_def page1_fold_lines_def page1_table_header_def
      page1_subtotal_def page1_sfido_summary_def page1_total_def page1_footer_def
      page2_title_def np_drawSurface Let_def)

lemma np_page2_tail:
  "list_all (\<lambda>c. \<not> is_path_cmd c) (page2_edges rt dims)"
  "list_all (\<lambda>c. \<not> is_path_cmd c) (fst (page2_legend rt dims colors))"
  "list_all (\<lambda>c. \<not> is_path_cmd c) (page2_dimensions rt dims colors y)"
  "list_all (\<lambda>c. \<not> is_path_cmd c) (page2_footer rt)"
  by (simp_all add: page2_edges_def page2_legend_def page2_dimensions_def page2_footer_def
      np_line_forEach np_legendData_forEach Let_def)

lemma fills_page2_walls:
  "fills_aux col [] (page2_walls rt dims colors @ rest)
     = painter_order (v rt dims) colors
       @ fills_aux (lighten 20 (sides_long colors)) [] rest"
  by (simp add: page2_walls_def painter_order_def channels_def lighten_def Let_def
      fills_aux_fillPoly del: fillPoly.simps)

lemma handleExportPDF_split:
  "\<exists>pre post. handleExportPDF rt dims colors
      = pre @ page2_walls rt dims colors @ page2_sfido rt dims colors @ post
    \<and> list_all (\<lambda>c. \<not> is_path_cmd c) pre \<and> list_all (\<lambda>c. \<not> is_path_cmd c) post"
proof -
  let ?pre = "page1_title rt margin
    @ (page1_surfaces rt dims colors 25 @ page1_sfido_strips rt dims colors 25
       @ page1_fold_lines rt dims 25)
    @ fst (page1_table_header rt (centerY 25 + drawAreaHeight / 2 + 10))
    @ fst (rows_forEach rt (rows rt dims colors)
         (snd (page1_table_header rt (centerY 25 + drawAreaHeight / 2 + 10))))
    @ fst (page1_subtotal rt dims colors (snd (rows_forEach rt (rows rt dims colors)
         (snd (page1_table_header rt (centerY 25 + drawAreaHeight / 2 + 10))))))
    @ fst (page1_sfido_summary rt dims (snd (page1_subtotal rt dims colors (snd (rows_forEach rt (rows rt dims colors)
         (snd (page1_table_header rt (centerY 25 + drawAreaHeight / 2 + 10))))))))
    @ page1_total rt dims colors (snd (page1_sfido_summary rt dims (snd (page1_subtotal rt dims colors (snd (rows_forEach rt (rows rt dims colors)
         (snd (page1_table_header rt (centerY 25 + drawAreaHeight / 2 + 10)))))))))
    @ page1_footer rt @ [AddPage] @ page2_title rt margin"
  let ?post = "page2_edges rt dims @ fst (page2_legend rt dims colors)
    @ page2_dimensions rt dims colors (snd (page2_legend rt dims colors))
    @ page2_footer rt
    @ [Save (''GeoViz_Scavo_'' @ slice (toISOString rt) 0 10 @ ''.pdf'')]"
  have "handleExportPDF rt dims colors
      = ?pre @ page2_walls rt dims colors @ page2_sfido rt dims colors @ ?post"
    by (simp add: handleExportPDF_def Let_def)
  moreover have "list_all (\<lambda>c. \<not> is_path_cmd c) ?pre"
    by (simp add: np_page1 np_rows_forEach)
  moreover have "list_all (\<lambda>c. \<not> is_path_cmd c) ?post"
    by (simp add: np_page2_tail)
  ultimately show ?thesis by blast
qed

lemma fills_handleExportPDF:
  "take 5 (fills (handleExportPDF rt dims colors)) = painter_order (v rt dims) colors"
proof -
  obtain pre post where h: "handleExportPDF rt dims colors
      = pre @ page2_walls rt dims colors @ page2_sfido rt dims colors @ post"
    and np: "list_all (\<lambda>c. \<not> is_path_cmd c) pre"
    using handleExportPDF_split by blast
  obtain col' where "fills_aux (0, 0, 0) [] (pre @ page2_walls rt dims colors @ page2_sfido rt dims colors @ post)
      = fills_aux col' [] (page2_walls rt dims colors @ page2_sfido rt dims colors @ post)"
    using fills_aux_skip [OF np] by blast
  then show ?thesis
    by (simp add: fills_def h fills_page2_walls painter_order_def)
qed


lemma np_drawSurface_base: "list_all (\<lambda>c. \<not> is_path_cmd c) (drawSurface_base rt x y w h c l a d)"
  by (simp add: drawSurface_base_def Let_def)

lemma np_surfaceData_forEach: "list_all (\<lambda>c. \<not> is_path_cmd c) (fst (surfaceData_forEach rt rs y))"
  by (induction rs arbitrary: y) (simp_all add: Let_def)

lemma np_legendItems_forEach: "list_all (\<lambda>c. \<not> is_path_cmd c) (legendItems_forEach es y x)"
  by (induction es arbitrary: x) simp_all

lemma np_drawArrow: "list_all (\<lambda>c. \<not> is_path_cmd c) (drawArrow a b c d l e f)"
  by (simp add: drawArrow_def Let_def)

lemma np_base:
  "list_all (\<lambda>c. \<not> is_path_cmd c) (page1_header_base rt)"
  "list_all (\<lambda>c. \<not> is_path_cmd c) (fst (page1_section_title_base y))"
  "list_all (\<lambda>c. \<not> is_path_cmd c) (page1_surfaces_base rt dims colors y)"
  "list_all (\<lambda>c. \<not> is_path_cmd c) (page1_fold_lines_base rt dims y)"
  "list_all (\<lambda>c. \<not> is_path_cmd c) (fst (page1_legend_base rt dims y))"
  "list_all (\<lambda>c. \<not> is_path_cmd c) (page1_total_base rt dims colors y)"
  "list_all (\<lambda>c. \<not> is_path_cmd c) (page1_footer_base rt)"
  "list_all (\<lambda>c. \<not> is_path_cmd c) (page2_header_base rt)"
  "list_all (\<lambda>c. \<not> is_path_cmd c) (page2_edges_base rt dims y)"
  "list_all (\<lambda>c. \<not> is_path_cmd c) (page2_arrows_base rt dims y)"
  "list_all (\<lambda>c. \<not> is_path_cmd c) (page2_specs_base rt dims colors y)"
  "list_all (\<lambda>c. \<not> is_path_cmd c) (page2_footer_base rt)"
  by (simp_all add: page1_header_base_def page1_section_title_base_def
      page1_surfaces_base_def page1_fold_lines_base_def page1_legend_base_def
      page1_total_base_def page1_footer_base_def page2_header_base_def
      page2_edges_base_def page2_arrows_base_def
      page2_specs_base_def page2_footer_base_def np_drawSurface_base
      np_drawArrow np_legendItems_forEach Let_def)

lemma fills_page2_walls_base:
  "fills_aux col [] (page2_walls_base rt dims colors y @ rest)
     = painter_order (vertices rt dims y) colors
       @ fills_aux (lighten 20 (sides_long colors)) [] rest"
  by (simp add: page2_walls_base_def painter_order_def channels_def lighten_def Let_def
      fills_aux_fillPoly del: fillPoly.simps)

lemma fills_handleExportPDF_base:
  "fills (handleExportPDF_base rt dims colors) = painter_order (vertices rt dims 50) colors"
proof -
  let ?pre = "page1_header_base rt @ fst (page1_section_title_base 50)
    @ (page1_surfaces_base rt dims colors (snd (page1_section_title_base 50))
       @ page1_fold_lines_base rt dims (snd (page1_section_title_base 50)))
    @ fst (page1_legend_base rt dims (startY (snd (page1_section_title_base 50))
         + sDepth_base rt dims * 2 + sWidth_base rt dims + 15))
    @ fst (surfaceData_forEach rt (surfaceData rt dims colors)
         (snd (page1_legend_base rt dims (startY (snd (page1_section_title_base 50))
         + sDepth_base rt dims * 2 + sWidth_base rt dims + 15))))
    @ page1_total_base rt dims colors (snd (surfaceData_forEach rt (surfaceData rt dims colors)
         (snd (page1_legend_base rt dims (startY (snd (page1_section_title_base 50))
         + sDepth_base rt dims * 2 + sWidth_base rt dims + 15)))))
    @ page1_footer_base rt @ [AddPage] @ page2_header_base rt"
  let ?post = "page2_edges_base rt dims 50 @ page2_arrows_base rt dims 50
    @ page2_specs_base rt dims colors (isoCenterY_base 50 + 80)
    @ page2_footer_base rt
    @ [Save (''GeoViz_Scavo_'' @ slice (toISOString rt) 0 10 @ ''.pdf'')]"
  have h: "handleExportPDF_base rt dims colors
      = ?pre @ page2_walls_base rt dims colors 50 @ ?post"
    by (simp add: handleExportPDF_base_def Let_def)
  have np: "list_all (\<lambda>c. \<not> is_path_cmd c) ?pre"
    by (simp add: np_base np_surfaceData_forEach)
  have npost: "list_all (\<lambda>c. \<not> is_path_cmd c) ?post"
    by (simp add: np_base)
  obtain col' where "fills_aux (0, 0, 0) [] (?pre @ page2_walls_base rt dims colors 50 @ ?post)
      = fills_aux col' [] (page2_walls_base rt dims colors 50 @ ?post)"
    using fills_aux_skip [OF np] by blast
  then show ?thesis
    unfolding fills_def h
    by (simp only: fills_page2_walls_base fills_aux_no_path [OF npost] append_Nil2)
qed

lemma page2_sfido_zero: "sfido dims = 0 \<Longrightarrow> page2_sfido rt dims colors = []"
  by (simp add: page2_sfido_def jsnum_lit)

lemma fills_handleExportPDF_zero:
  assumes "sfido dims = 0"
  shows "fills (handleExportPDF rt dims colors) = painter_order (v rt dims) colors"
proof -
  obtain pre post where h: "handleExportPDF rt dims colors
      = pre @ page2_walls rt dims colors @ page2_sfido rt dims colors @ post"
    and np: "list_all (\<lambda>c. \<not> is_path_cmd c) pre"
    and npost: "list_all (\<lambda>c. \<not> is_path_cmd c) post"
    using handleExportPDF_split by blast
  obtain col' where "fills_aux (0, 0, 0) [] (pre @ page2_walls rt dims colors @ post)
      = fills_aux col' [] (page2_walls rt dims colors @ post)"
    using fills_aux_skip [OF np] by blast
  then show ?thesis
    unfolding fills_def h page2_sfido_zero [OF assms] append_Nil
    by (simp only: fills_page2_walls fills_aux_no_path [OF npost] append_Nil2)
qed

section \<open>Faces, strips and the overlap blocks\<close>

lemma Math_min_Fin: "Math_min (Fin a) (Fin b) = Fin (min a b)"
  by (simp add: min_def)


text \<open>
  C6. In both revisions the first five filled paths of the document are the five faces
  in the fixed order back long wall, left short wall, base, right short wall, front long
  wall (in the earlier revision they are all the filled paths there are). The right short
  wall is filled with the short-wall colour plus 30 on each channel and the front long
  wall with the long-wall colour plus 20, and a lightened channel is the minimum of 255
  and the sum.
\<close>

theorem face_order:
  "take 5 (fills (handleExportPDF rt dims colors)) = painter_order (v rt dims) colors
   \<and> fills (handleExportPDF_base rt dims colors) = painter_order (vertices rt dims 50) colors
   \<and> Math_min 255 (Fin x + Fin k) = Fin (min 255 (x + k))"
  by (simp add: fills_handleExportPDF fills_handleExportPDF_base Math_min_Fin jsnum_lit)





text \<open>
  C9. With an overlap of zero the four guarded blocks emit nothing: no strips on page 1,
  no overlap summary, no overlap bands on page 2 and no legend row for the overlap; the
  filled paths of the whole document are the five faces alone.
\<close>

theorem zero_overlap_suppression:
  assumes "sfido dims = 0"
  shows "page1_sfido_strips rt dims colors yPos = []
   \<and> page1_sfido_summary rt dims yPos = ([], yPos)
   \<and> page2_sfido rt dims colors = []
   \<and> map item_name (legendData dims colors) = [''Base'', ''Pareti Lunghe'', ''Pareti Corte'']
   \<and> fills (handleExportPDF rt dims colors) = painter_order (v rt dims) colors"
  using assms fills_handleExportPDF_zero [OF assms, of rt colors]
  by (simp add: page1_sfido_strips_def page1_sfido_summary_def page2_sfido_def
      legendData_def jsnum_lit Let_def)

text \<open>The theorem for the excavation of 4 by 3 by 2.5 metres without overlap.\<close>

theorem zero_overlap_suppression_witness:
  "sfido (sample_dims 0) = 0
   \<and> page1_sfido_strips sample_env (sample_dims 0) sample_colors 25 = []
   \<and> page2_sfido sample_env (sample_dims 0) sample_colors = []
   \<and> length (legendData (sample_dims 0) sample_colors) = 3
   \<and> length (fills (handleExportPDF sample_env (sample_dims 0) sample_colors)) = 5"
proof -
  have h: "sfido (sample_dims 0) = 0"
    by (simp add: sample_dims_def)
  have l: "length (legendData (sample_dims 0) sample_colors) = 3"
    by (simp add: legendData_def sample_dims_def jsnum_lit)
  show ?thesis
    using h l zero_overlap_suppression [OF h, of sample_env sample_colors 25]
    by (simp add: painter_order_def)
qed

section \<open>The scale of the flattened layout\<close>









section \<open>Colour strings\<close>











end
